theory Spec2Isabelle
  imports Complex_Main "HOL-Library.Word"
begin

section \<open>Errors raised by the program\<close>

text \<open>
  Every exception the sources raise, or let pass from a library call, is a value. The
  string is the message the source gives the exception.
\<close>

datatype error =
    TimeoutException string
  | AssertionError string
  | Exception string
  | ValueError string
  | OverflowError string
  | ReError
  | StructError
  | KeyError string
  | TypeError
  | JSONDecodeError
  | RequestException

section \<open>The run-status file (\<^verbatim>\<open>manage_running_status\<close>, utils.py)\<close>

text \<open>
  \<^verbatim>\<open>STATUS_FILE\<close> is one fixed path. The model keeps what is stored under that path:
  \<open>None\<close> when the file does not exist, otherwise its bytes. Opening the file for
  writing is taken to succeed (the \<^verbatim>\<open>logs\<close> directory exists and is writable).
  In the two messages that end with a quoted word, a space follows the closing quote,
  since a string literal cannot end with a quote character.
\<close>

type_synonym byte = "8 word"
type_synonym status_file = "byte list option"

text \<open>The second argument of \<^verbatim>\<open>manage_running_status\<close> as Python passes it.\<close>

datatype pyvalue = PyNone | PyBool bool | PyInt int

text \<open>\<^verbatim>\<open>struct.pack("?", v)\<close>: one byte, 1 for true and 0 for false.\<close>

definition struct_pack_bool :: "bool \<Rightarrow> byte list" where
  "struct_pack_bool v = [if v then 1 else 0]"

text \<open>
  \<^verbatim>\<open>struct.unpack("?", buf)[0]\<close>: the buffer must hold exactly one byte, otherwise
  \<^verbatim>\<open>struct.error\<close>; any non-zero byte is true.
\<close>

definition struct_unpack_bool :: "byte list \<Rightarrow> error + bool" where
  "struct_unpack_bool buf =
     (case buf of [b] \<Rightarrow> Inr (b \<noteq> 0) | _ \<Rightarrow> Inl StructError)"

text \<open>\<^verbatim>\<open>file.read(n)\<close> on a freshly opened file: at most the first \<open>n\<close> bytes.\<close>

definition file_read :: "nat \<Rightarrow> byte list \<Rightarrow> byte list" where
  "file_read n content = take n content"

definition manage_running_status ::
  "string \<Rightarrow> pyvalue \<Rightarrow> status_file \<Rightarrow> (error + bool option) \<times> status_file" where
  "manage_running_status method val fs =
     (if method = ''set'' then
        (case val of
           PyNone \<Rightarrow> (Inl (ValueError ''value must be provided when method is 'set' ''), fs)
         | PyInt _ \<Rightarrow> (Inl (AssertionError ''value must be a boolean when method='set' ''), fs)
         | PyBool v \<Rightarrow> (Inr None, Some (struct_pack_bool v)))
      else if method = ''get'' then
        (case fs of
           None \<Rightarrow> (Inr (Some False), fs)
         | Some content \<Rightarrow>
             (case struct_unpack_bool (file_read 1 content) of
                Inl e \<Rightarrow> (Inl e, fs)
              | Inr output \<Rightarrow> (Inr (Some output), fs)))
      else if method = ''reset'' then
        (case fs of
           Some _ \<Rightarrow> (Inr None, None)
         | None \<Rightarrow> (Inr None, fs))
      else (Inl (ValueError ''method must be either 'get' or 'set' ''), fs))"

section \<open>The browser session as the program sees it\<close>

text \<open>
  The browser, the HTTP session, the clock and the operator are outside the program. The
  model records every call the program makes on them, in order, as a trace of events, and
  takes the answers from a \<open>world\<close>: what a call returns may depend on the moment of
  the call, which is the number of events before it. The \<^verbatim>\<open>logging\<close> calls change
  nothing and are left out. The event \<open>Enter\<close> is not a call: it marks the point where
  control enters the body of one of the five authentication branches.

  Of the library calls, the two waits and the loading of a page raise
  \<^verbatim>\<open>TimeoutException\<close> and the HTTP request raises an exception of \<^verbatim>\<open>requests\<close>, as the
  sources expect of them; \<^verbatim>\<open>time.sleep\<close> and \<^verbatim>\<open>re.search\<close> raise on the arguments
  they refuse; clicking, typing, reading an attribute, printing, reading the operator's
  input and computing a one-time code are taken to return. An \<^verbatim>\<open>assert\<close> that fails
  raises \<^verbatim>\<open>AssertionError\<close> (the interpreter does not run with assertions stripped).
\<close>

datatype By = By_ID | By_NAME | By_CSS_SELECTOR

text \<open>A located \<^verbatim>\<open>WebElement\<close> is known by the locator that found it.\<close>

type_synonym element = "By \<times> string"

datatype branch =
    Passwordless
  | PasswordNo2FA
  | PasswordTOTP
  | PasswordDeviceAuth
  | PasswordManual2FA

datatype event =
    Get string
  | WaitVisible element real
  | WaitClickable element real
  | Click element
  | SendKeys element string
  | GetAttribute element string
  | PageSource
  | Sleep real
  | GetCookies
  | HttpGet string
  | Print string
  | Input
  | Enter branch

datatype json =
    JNull
  | JBool bool
  | JNum int
  | JStr string
  | JArr "json list"
  | JObj "(string \<times> json) list"

text \<open>
  What \<^verbatim>\<open>session.get\<close> gives: an exception of \<^verbatim>\<open>requests\<close> (no connection, retries
  used up), or a response with its status code and its body, \<open>None\<close> when the body is
  not JSON.
\<close>

datatype http_outcome = RequestFailed | Response nat "json option"

record world =
  loads :: "nat \<Rightarrow> string \<Rightarrow> bool"
  appears :: "nat \<Rightarrow> element \<Rightarrow> real \<Rightarrow> bool"
  becomes_clickable :: "nat \<Rightarrow> element \<Rightarrow> real \<Rightarrow> bool"
  field_value :: "nat \<Rightarrow> element \<Rightarrow> string \<Rightarrow> string option"
  source :: "nat \<Rightarrow> string"
  cookies :: "nat \<Rightarrow> (string \<times> string) list"
  http_response :: "nat \<Rightarrow> string \<Rightarrow> (string \<times> string) list \<Rightarrow> http_outcome"
  totp_now :: "nat \<Rightarrow> string \<Rightarrow> string"
  re_other :: "string \<Rightarrow> string \<Rightarrow> error + bool"

text \<open>
  \<open>loads w t url\<close>: \<^verbatim>\<open>webdriver.get(url)\<close>, called at moment \<open>t\<close>, returns; otherwise it
  raises \<^verbatim>\<open>TimeoutException\<close>, which \<^verbatim>\<open>goToRewards\<close> and \<^verbatim>\<open>getDashboardData\<close> catch.
  \<open>appears w t el n\<close>: a wait of \<open>n\<close> seconds for \<open>el\<close> to be visible, begun at moment
  \<open>t\<close>, finds it. \<open>totp_now w t secret\<close>: \<^verbatim>\<open>TOTP(secret).now()\<close> at moment \<open>t\<close>.
  \<open>re_other w pattern s\<close>: what \<^verbatim>\<open>re.search(pattern, s)\<close> does (an exception, or whether
  there is a match) for a pattern that uses syntax beyond the part of the pattern language
  written out below. Durations are Python floats, taken as real numbers.
\<close>

type_synonym 'a prog = "event list \<Rightarrow> (error + 'a) \<times> event list"

definition ret :: "'a \<Rightarrow> 'a prog" where
  "ret x tr = (Inr x, tr)"

definition raise :: "error \<Rightarrow> 'a prog" where
  "raise e tr = (Inl e, tr)"

text \<open>Sequencing: an exception of the first statement skips the rest.\<close>

definition and_then :: "'a prog \<Rightarrow> ('a \<Rightarrow> 'b prog) \<Rightarrow> 'b prog" where
  "and_then m f tr =
     (case m tr of (Inl e, tr') \<Rightarrow> (Inl e, tr') | (Inr x, tr') \<Rightarrow> f x tr')"

definition py_assert :: "bool \<Rightarrow> string \<Rightarrow> unit prog" where
  "py_assert cond msg tr = (if cond then Inr () else Inl (AssertionError msg), tr)"

definition emit :: "event \<Rightarrow> unit prog" where
  "emit e tr = (Inr (), tr @ [e])"

subsection \<open>Selenium and standard-library calls\<close>

text \<open>A value or an exception that does not touch the session.\<close>

definition outcome :: "error + 'a \<Rightarrow> 'a prog" where
  "outcome r tr = (r, tr)"

definition webdriver_get :: "world \<Rightarrow> string \<Rightarrow> unit prog" where
  "webdriver_get w url tr =
     (if loads w (length tr) url then Inr () else Inl (TimeoutException []), tr @ [Get url])"

definition click :: "element \<Rightarrow> unit prog" where
  "click el = emit (Click el)"

definition send_keys :: "element \<Rightarrow> string \<Rightarrow> unit prog" where
  "send_keys el text = emit (SendKeys el text)"

definition get_attribute :: "world \<Rightarrow> element \<Rightarrow> string \<Rightarrow> string option prog" where
  "get_attribute w el name tr =
     (Inr (field_value w (length tr) el name), tr @ [GetAttribute el name])"

definition page_source :: "world \<Rightarrow> string prog" where
  "page_source w tr = (Inr (source w (length tr)), tr @ [PageSource])"

text \<open>
  \<^verbatim>\<open>time.sleep(secs)\<close>: the duration, taken as the real number the float stands for,
  is converted to a signed 64-bit count of nanoseconds, \<^verbatim>\<open>OverflowError\<close> when it does
  not fit; a negative duration is then refused with \<^verbatim>\<open>ValueError\<close>; otherwise the call
  sleeps for the whole duration.
\<close>

definition sleep :: "real \<Rightarrow> unit prog" where
  "sleep secs tr =
     (if secs * 10 ^ 9 < - (2 ^ 63) \<or> 2 ^ 63 \<le> secs * 10 ^ 9
      then (Inl (OverflowError ''timestamp too large to convert to C _PyTime_t''), tr)
      else if secs < 0 then (Inl (ValueError ''sleep length must be non-negative''), tr)
      else (Inr (), tr @ [Sleep secs]))"

definition print :: "string \<Rightarrow> unit prog" where
  "print msg = emit (Print msg)"

definition input :: "unit prog" where
  "input = emit Input"

definition get_cookies :: "world \<Rightarrow> (string \<times> string) list prog" where
  "get_cookies w tr = (Inr (cookies w (length tr)), tr @ [GetCookies])"

definition session_get ::
  "world \<Rightarrow> string \<Rightarrow> (string \<times> string) list \<Rightarrow> (nat \<times> json option) prog" where
  "session_get w url cs tr =
     (case http_response w (length tr) url cs of
        RequestFailed \<Rightarrow> (Inl RequestException, tr @ [HttpGet url])
      | Response status body \<Rightarrow> (Inr (status, body), tr @ [HttpGet url]))"

subsection \<open>Regular expressions (\<^verbatim>\<open>re\<close>)\<close>

text \<open>
  The part of Python's pattern language that is written out: ordinary characters, the dot
  (any character but the newline), the three repeats \<^verbatim>\<open>*\<close>, \<^verbatim>\<open>+\<close> and \<^verbatim>\<open>?\<close> (one per
  item), alternation, groups, and a backslash before a special character. Strings are
  taken over one-byte characters. Any other syntax (classes, anchors, counted, lazy or
  possessive repeats, group extensions, letter escapes) makes the pattern \<open>Unsupported\<close>,
  and the search is then whatever the world says.
\<close>

datatype rx = Null | Eps | Lit char | Dot | Cat rx rx | Or rx rx | Star rx

text \<open>Matching by derivatives: \<open>nullable r\<close> when \<open>r\<close> matches the empty string.\<close>

fun nullable :: "rx \<Rightarrow> bool" where
  "nullable Null = False"
| "nullable Eps = True"
| "nullable (Lit c) = False"
| "nullable Dot = False"
| "nullable (Cat r s) = (nullable r \<and> nullable s)"
| "nullable (Or r s) = (nullable r \<or> nullable s)"
| "nullable (Star r) = True"

fun deriv :: "char \<Rightarrow> rx \<Rightarrow> rx" where
  "deriv c Null = Null"
| "deriv c Eps = Null"
| "deriv c (Lit d) = (if c = d then Eps else Null)"
| "deriv c Dot = (if c = CHR 0x0A then Null else Eps)"
| "deriv c (Cat r s) =
     (if nullable r then Or (Cat (deriv c r) s) (deriv c s) else Cat (deriv c r) s)"
| "deriv c (Or r s) = Or (deriv c r) (deriv c s)"
| "deriv c (Star r) = Cat (deriv c r) (Star r)"

text \<open>\<open>r\<close> matches a prefix of the string; \<open>r\<close> matches somewhere in the string.\<close>

fun match_prefix :: "rx \<Rightarrow> string \<Rightarrow> bool" where
  "match_prefix r [] = nullable r"
| "match_prefix r (c # cs) = (nullable r \<or> match_prefix (deriv c r) cs)"

fun search :: "rx \<Rightarrow> string \<Rightarrow> bool" where
  "search r [] = nullable r"
| "search r (c # cs) = (match_prefix r (c # cs) \<or> search r cs)"

text \<open>
  The parser reads the pattern from left to right. A frame holds the finished
  alternatives of the group being read and the items of its current alternative, the last
  one first; \<open>fs\<close> are the frames of the enclosing groups, and \<open>q\<close> tells that the last
  character read was a repeat. \<open>Invalid\<close> is a pattern that \<^verbatim>\<open>re\<close> refuses: a backslash
  at the end, a repeat with nothing before it, a parenthesis without its partner.
\<close>

fun cat_all :: "rx list \<Rightarrow> rx" where
  "cat_all [] = Eps"
| "cat_all (r # rs) = Cat r (cat_all rs)"

fun or_all :: "rx list \<Rightarrow> rx" where
  "or_all [] = Null"
| "or_all [r] = r"
| "or_all (r # rs) = Or r (or_all rs)"

type_synonym frame = "rx list \<times> rx list"

definition close_frame :: "frame \<Rightarrow> rx" where
  "close_frame f = or_all (fst f @ [cat_all (rev (snd f))])"

definition quantify :: "char \<Rightarrow> rx \<Rightarrow> rx" where
  "quantify q r =
     (if q = CHR ''*'' then Star r else if q = CHR ''+'' then Cat r (Star r) else Or r Eps)"

definition special :: "char \<Rightarrow> bool" where
  "special c = (c \<in> set [CHR ''.'', CHR ''^'', CHR ''$'', CHR ''*'', CHR ''+'', CHR ''?'',
     CHR ''{'', CHR ''}'', CHR ''['', CHR '']'', CHR 0x5C, CHR ''|'', CHR ''('', CHR '')''])"

datatype parsed = Pattern rx | Invalid | Unsupported

fun parse :: "frame \<Rightarrow> frame list \<Rightarrow> bool \<Rightarrow> string \<Rightarrow> parsed" where
  "parse f fs q [] = (if fs = [] then Pattern (close_frame f) else Invalid)"
| "parse f fs q (c # cs) =
     (if c = CHR 0x5C then
        (case cs of
           [] \<Rightarrow> Invalid
         | d # ds \<Rightarrow> if special d then parse (fst f, Lit d # snd f) fs False ds else Unsupported)
      else if c = CHR ''.'' then parse (fst f, Dot # snd f) fs False cs
      else if c = CHR ''*'' \<or> c = CHR ''+'' \<or> c = CHR ''?'' then
        (if q then Unsupported
         else (case snd f of
                 [] \<Rightarrow> Invalid
               | r # rs \<Rightarrow> parse (fst f, quantify c r # rs) fs True cs))
      else if c = CHR ''|'' then parse (fst f @ [cat_all (rev (snd f))], []) fs False cs
      else if c = CHR ''('' then
        (case cs of
           [] \<Rightarrow> Invalid
         | d # ds \<Rightarrow> if d = CHR ''?'' then Unsupported else parse ([], []) (f # fs) False cs)
      else if c = CHR '')'' then
        (case fs of
           [] \<Rightarrow> Invalid
         | g # gs \<Rightarrow> parse (fst g, close_frame f # snd g) gs False cs)
      else if special c then Unsupported
      else parse (fst f, Lit c # snd f) fs False cs)"

text \<open>
  \<^verbatim>\<open>re.search(pattern, s)\<close>, as far as the caller sees it: \<^verbatim>\<open>re.error\<close> for a pattern
  that does not compile, otherwise whether the pattern matches somewhere in \<open>s\<close> (the
  match object is only compared with \<^verbatim>\<open>None\<close>).
\<close>

definition re_search :: "world \<Rightarrow> string \<Rightarrow> string \<Rightarrow> error + bool" where
  "re_search w pattern s =
     (case parse ([], []) [] False pattern of
        Pattern r \<Rightarrow> Inr (search r s)
      | Invalid \<Rightarrow> Inl ReError
      | Unsupported \<Rightarrow> re_other w pattern s)"

subsection \<open>JSON values\<close>

text \<open>\<^verbatim>\<open>response.json()\<close>.\<close>

definition response_json :: "json option \<Rightarrow> json prog" where
  "response_json body = (case body of None \<Rightarrow> raise JSONDecodeError | Some j \<Rightarrow> ret j)"

text \<open>
  \<^verbatim>\<open>obj[key]\<close> with a string key: on a dict the value of the key (for a repeated key
  the JSON decoder keeps the last one) or \<^verbatim>\<open>KeyError\<close>; on anything else
  \<^verbatim>\<open>TypeError\<close>.
\<close>

definition getitem :: "json \<Rightarrow> string \<Rightarrow> json prog" where
  "getitem j key =
     (case j of
        JObj kvs \<Rightarrow>
          (case map_of (rev kvs) key of None \<Rightarrow> raise (KeyError key) | Some v \<Rightarrow> ret v)
      | _ \<Rightarrow> raise TypeError)"

text \<open>The truth value Python gives a decoded JSON value in an \<^verbatim>\<open>if\<close>.\<close>

fun truthy :: "json \<Rightarrow> bool" where
  "truthy JNull = False"
| "truthy (JBool b) = b"
| "truthy (JNum n) = (n \<noteq> 0)"
| "truthy (JStr s) = (s \<noteq> [])"
| "truthy (JArr xs) = (xs \<noteq> [])"
| "truthy (JObj kvs) = (kvs \<noteq> [])"

text \<open>\<^verbatim>\<open>requests.codes.ok\<close>.\<close>

definition codes_ok :: nat where
  "codes_ok = 200"

subsection \<open>\<^verbatim>\<open>Utils\<close> (utils.py)\<close>

definition waitUntilVisible :: "world \<Rightarrow> By \<Rightarrow> string \<Rightarrow> real \<Rightarrow> element prog" where
  "waitUntilVisible w b selector timeToWait tr =
     (if appears w (length tr) (b, selector) timeToWait then Inr (b, selector)
      else Inl (TimeoutException []),
      tr @ [WaitVisible (b, selector) timeToWait])"

definition waitUntilClickable :: "world \<Rightarrow> By \<Rightarrow> string \<Rightarrow> real \<Rightarrow> element prog" where
  "waitUntilClickable w b selector timeToWait tr =
     (if becomes_clickable w (length tr) (b, selector) timeToWait then Inr (b, selector)
      else Inl (TimeoutException []),
      tr @ [WaitClickable (b, selector) timeToWait])"

definition checkIfTextPresentAfterDelay :: "world \<Rightarrow> string \<Rightarrow> real \<Rightarrow> bool prog" where
  "checkIfTextPresentAfterDelay w text timeToWait =
     and_then (sleep timeToWait) (\<lambda>_.
     and_then (page_source w) (\<lambda>src.
     and_then (outcome (re_search w text src)) (\<lambda>text_found.
     ret text_found)))"

definition getBingInfo :: "world \<Rightarrow> json prog" where
  "getBingInfo w =
     and_then (get_cookies w) (\<lambda>cs.
     and_then (session_get w ''https://www.bing.com/rewards/panelflyout/getuserinfo'' cs)
       (\<lambda>(status_code, body).
     and_then (py_assert (status_code = codes_ok) []) (\<lambda>_.
     and_then (response_json body) (\<lambda>j.
     getitem j ''userInfo''))))"

text \<open>
  \<^verbatim>\<open>with contextlib.suppress(TimeoutException)\<close> around a wait that is followed, inside
  the block, by setting a flag or by \<^verbatim>\<open>return True\<close>: the timeout is swallowed and
  gives false, any other exception passes.
\<close>

definition suppress_timeout :: "element prog \<Rightarrow> bool prog" where
  "suppress_timeout wait tr =
     (case wait tr of
        (Inr _, tr') \<Rightarrow> (Inr True, tr')
      | (Inl (TimeoutException _), tr') \<Rightarrow> (Inr False, tr')
      | (Inl e, tr') \<Rightarrow> (Inl e, tr'))"

text \<open>The marker of the signed-in portal, \<^verbatim>\<open>html[data-role-name="RewardsPortal"]\<close>.\<close>

definition RewardsPortal :: string where
  \<open>RewardsPortal = ''html[data-role-name="RewardsPortal"]''\<close>

definition isLoggedIn :: "world \<Rightarrow> bool prog" where
  "isLoggedIn w =
     and_then (getBingInfo w) (\<lambda>info.
     and_then (getitem info ''isRewardsUser'') (\<lambda>isRewardsUser.
     if truthy isRewardsUser then ret True
     else
       and_then (webdriver_get w ''https://rewards.bing.com/Signin/'') (\<lambda>_.
       suppress_timeout (waitUntilVisible w By_CSS_SELECTOR RewardsPortal 10))))"

subsection \<open>\<^verbatim>\<open>Account\<close> (account.py) and the command-line arguments\<close>

text \<open>
  Modelled from the spec: the \<^verbatim>\<open>Browser\<close> class is not among the sources; \<^verbatim>\<open>Login\<close>
  reads \<^verbatim>\<open>username\<close>, \<^verbatim>\<open>password\<close> and \<^verbatim>\<open>totp\<close> from its browser object, which
  holds them for the account of the attempt, unchanged during it. \<^verbatim>\<open>visible\<close> is read
  from the parsed arguments.
\<close>

record account =
  username :: string
  password :: string
  totp :: "string option"
  proxy :: "string option"
  chrome_profile_path :: "string option"

record namespace =
  visible :: bool

subsection \<open>\<^verbatim>\<open>Login\<close> (login.py)\<close>

text \<open>
  Modelled from the spec: \<^verbatim>\<open>REWARDS_URL\<close>, a constant of the constants module, which is
  not among the sources, is the rewards home URL; the comment in \<^verbatim>\<open>executeLogin\<close> names
  the address. No property below depends on its value.
\<close>

definition REWARDS_URL :: string where
  "REWARDS_URL = ''https://rewards.bing.com/''"

text \<open>Lines 40 to 46: the email field.\<close>

definition enterEmail :: "world \<Rightarrow> account \<Rightarrow> unit prog" where
  "enterEmail w acct =
     and_then (waitUntilVisible w By_ID ''i0116'' 10) (\<lambda>emailField.
     and_then (click emailField) (\<lambda>_.
     and_then (send_keys emailField (username acct)) (\<lambda>_.
     and_then (get_attribute w emailField ''value'') (\<lambda>v.
     and_then (py_assert (v = Some (username acct)) []) (\<lambda>_.
     and_then (waitUntilClickable w By_ID ''idSIButton9'' 10) click)))))"

text \<open>Lines 56 to 64: the body of \<^verbatim>\<open>if isPasswordless\<close>.\<close>

definition passwordlessLogin :: "world \<Rightarrow> unit prog" where
  "passwordlessLogin w =
     and_then (emit (Enter Passwordless)) (\<lambda>_.
     and_then (waitUntilVisible w By_ID ''displaySign'' 10) (\<lambda>codeField.
     and_then (waitUntilVisible w By_NAME ''kmsiForm'' 60) (\<lambda>_.
     ret ())))"

text \<open>Lines 67 to 73: the password field.\<close>

definition enterPassword :: "world \<Rightarrow> account \<Rightarrow> unit prog" where
  "enterPassword w acct =
     and_then (waitUntilClickable w By_NAME ''passwd'' 10) (\<lambda>passwordField.
     and_then (click passwordField) (\<lambda>_.
     and_then (send_keys passwordField (password acct)) (\<lambda>_.
     and_then (get_attribute w passwordField ''value'') (\<lambda>v.
     and_then (py_assert (v = Some (password acct)) []) (\<lambda>_.
     and_then (waitUntilClickable w By_ID ''idSIButton9'' 10) click)))))"

text \<open>
  Lines 111 to 122: the one-time code, computed from the secret with its spaces removed.
\<close>

definition totp_code :: "world \<Rightarrow> string \<Rightarrow> string prog" where
  "totp_code w secret tr =
     (Inr (totp_now w (length tr) (filter (\<lambda>c. c \<noteq> CHR '' '') secret)), tr)"

definition enterOTP :: "world \<Rightarrow> string \<Rightarrow> unit prog" where
  "enterOTP w secret =
     and_then (totp_code w secret) (\<lambda>otp.
     and_then (waitUntilClickable w By_ID ''idTxtBx_SAOTCC_OTC'' 10) (\<lambda>otpField.
     and_then (send_keys otpField otp) (\<lambda>_.
     and_then (get_attribute w otpField ''value'') (\<lambda>v.
     and_then (py_assert (v = Some otp) []) (\<lambda>_.
     and_then (waitUntilClickable w By_ID ''idSubmit_SAOTCC_Continue'' 10) click)))))"

text \<open>Lines 124 to 134: no secret is configured.\<close>

definition manual2FA :: "namespace \<Rightarrow> unit prog" where
  "manual2FA args =
     and_then (py_assert (visible args)
       ''[LOGIN] 2FA detected, provide token in accounts.json or run in visible mode to handle login.'')
       (\<lambda>_.
     and_then (print
       ''[LOGIN] 2FA detected, handle prompts and press enter when on keep me signed in page.'')
       (\<lambda>_.
     input))"

text \<open>
  Lines 75 to 134: both markers are probed, then one branch is taken. The statements
  that follow the \<^verbatim>\<open>raise\<close> in the device branch (lines 97 to 107) are never reached.
\<close>

definition twoFactor :: "world \<Rightarrow> namespace \<Rightarrow> account \<Rightarrow> unit prog" where
  "twoFactor w args acct =
     and_then (suppress_timeout (waitUntilVisible w By_ID ''idSpan_SAOTCAS_DescSessionID'' 10))
       (\<lambda>isDeviceAuthEnabled.
     and_then (suppress_timeout (waitUntilVisible w By_ID ''idTxtBx_SAOTCC_OTC'' 1))
       (\<lambda>isTOTPEnabled.
     if isDeviceAuthEnabled then
       and_then (emit (Enter PasswordDeviceAuth)) (\<lambda>_.
       raise (Exception
         ''Unfortunatly, device auth is not supported yet. Turn on passwordless login in your account settings, use TOTPs or remove 2FA altogether.''))
     else if isTOTPEnabled then
       (case totp acct of
          Some secret \<Rightarrow> and_then (emit (Enter PasswordTOTP)) (\<lambda>_. enterOTP w secret)
        | None \<Rightarrow> and_then (emit (Enter PasswordManual2FA)) (\<lambda>_. manual2FA args))
     else emit (Enter PasswordNo2FA)))"

text \<open>Lines 136 and 137: the "stay signed in" form.\<close>

definition consent :: "world \<Rightarrow> unit prog" where
  "consent w =
     and_then (waitUntilVisible w By_NAME ''kmsiForm'' 10) (\<lambda>_.
     and_then (waitUntilClickable w By_ID ''acceptButton'' 10) click)"

text \<open>Lines 141 to 153: the account-protection page.\<close>

definition accountProtection :: "world \<Rightarrow> namespace \<Rightarrow> unit prog" where
  "accountProtection w args =
     and_then (checkIfTextPresentAfterDelay w ''protect your account'' 5)
       (\<lambda>isAskingToProtect.
     if isAskingToProtect then
       and_then (py_assert (visible args)
         ''Account protection detected, run in visible mode to handle login'') (\<lambda>_.
       and_then (print
         ''Account protection detected, handle prompts and press enter when on rewards page'')
         (\<lambda>_.
       input))
     else ret ())"

text \<open>
  Lines 160 to 179: the \<^verbatim>\<open>while\<close> loop with its \<^verbatim>\<open>else\<close>. A wait that succeeds
  breaks out of the loop; a timeout counts one retry, loads the rewards page and sleeps,
  and an exception of either leaves the loop; when the condition of the loop fails the
  \<^verbatim>\<open>else\<close> raises. The bound \<^verbatim>\<open>MAX_RETRY_DASHBOARD\<close> is an argument of the loop, so
  that the loop can be described for every bound.
\<close>

definition MAX_RETRY_DASHBOARD :: nat where
  "MAX_RETRY_DASHBOARD = 5"

definition RETRY_DASHBOARD_DELAY :: real where
  "RETRY_DASHBOARD_DELAY = 30"

function dashboard_loop :: "world \<Rightarrow> nat \<Rightarrow> nat \<Rightarrow> unit prog" where
  "dashboard_loop w max_retry retry_count tr =
     (if retry_count < max_retry then
        (case waitUntilVisible w By_CSS_SELECTOR RewardsPortal 10 tr of
           (Inr _, tr1) \<Rightarrow> (Inr (), tr1)
         | (Inl (TimeoutException _), tr1) \<Rightarrow>
             (case webdriver_get w REWARDS_URL tr1 of
                (Inl e, tr2) \<Rightarrow> (Inl e, tr2)
              | (Inr _, tr2) \<Rightarrow>
                  (case sleep RETRY_DASHBOARD_DELAY tr2 of
                     (Inl e, tr3) \<Rightarrow> (Inl e, tr3)
                   | (Inr _, tr3) \<Rightarrow> dashboard_loop w max_retry (retry_count + 1) tr3))
         | (Inl e, tr1) \<Rightarrow> (Inl e, tr1))
      else (Inl (TimeoutException ''Failed to load Dashboard after maximum retries.''), tr))"
  by pat_completeness auto
termination
  by (relation "measure (\<lambda>(w, max_retry, retry_count, tr). max_retry - retry_count)") auto

definition waitForDashboard :: "world \<Rightarrow> unit prog" where
  "waitForDashboard w = dashboard_loop w MAX_RETRY_DASHBOARD 0"

text \<open>Lines 40 to 134: from the email field to the end of the second-factor branches.\<close>

definition signIn :: "world \<Rightarrow> namespace \<Rightarrow> account \<Rightarrow> unit prog" where
  "signIn w args acct =
     and_then (enterEmail w acct) (\<lambda>_.
     and_then (suppress_timeout (waitUntilVisible w By_ID ''displaySign'' 10))
       (\<lambda>isPasswordless.
     if isPasswordless then passwordlessLogin w
     else and_then (enterPassword w acct) (\<lambda>_. twoFactor w args acct)))"

definition executeLogin :: "world \<Rightarrow> namespace \<Rightarrow> account \<Rightarrow> unit prog" where
  "executeLogin w args acct =
     and_then (signIn w args acct) (\<lambda>_.
     and_then (consent w) (\<lambda>_.
     and_then (accountProtection w args) (\<lambda>_.
     waitForDashboard w)))"

definition login :: "world \<Rightarrow> namespace \<Rightarrow> account \<Rightarrow> unit prog" where
  "login w args acct =
     and_then (isLoggedIn w) (\<lambda>alreadyLoggedIn.
     and_then (if alreadyLoggedIn then ret () else executeLogin w args acct) (\<lambda>_.
     and_then (isLoggedIn w) (\<lambda>loggedIn.
     py_assert loggedIn [])))"

section \<open>Vocabulary of the properties\<close>


text \<open>
  \<open>password_submitted w acct tr = Some tr3\<close>: started on the trace \<open>tr\<close>, the flow
  has entered the email, found no passwordless marker, entered and submitted the
  password, and stands at the trace \<open>tr3\<close>.
\<close>

definition password_submitted :: "world \<Rightarrow> account \<Rightarrow> event list \<Rightarrow> event list option" where
  "password_submitted w acct tr =
     (case enterEmail w acct tr of
        (Inr _, tr1) \<Rightarrow>
          (case suppress_timeout (waitUntilVisible w By_ID ''displaySign'' 10) tr1 of
             (Inr False, tr2) \<Rightarrow>
               (case enterPassword w acct tr2 of
                  (Inr _, tr3) \<Rightarrow> Some tr3
                | (Inl _, _) \<Rightarrow> None)
           | _ \<Rightarrow> None)
      | (Inl _, _) \<Rightarrow> None)"

text \<open>An account and a page to evaluate the flow on.\<close>

definition example_account :: account where
  "example_account =
     \<lparr>username = ''user@example.com'', password = ''hunter2'', totp = None, proxy = None,
      chrome_profile_path = None\<rparr>"

text \<open>
  The page of the example loads, shows the password form and the one-time-code input, but
  neither the passwordless marker nor the device marker; every field reads back what the
  example account types; its source does not hold the account-protection text; the account-info request answers that the user is not a rewards user; the
  portal loads.
\<close>

definition example_world :: world where
  "example_world =
     \<lparr>loads = (\<lambda>t url. True),
      appears = (\<lambda>t el n. el \<noteq> (By_ID, ''displaySign'')
                  \<and> el \<noteq> (By_ID, ''idSpan_SAOTCAS_DescSessionID'')),
      becomes_clickable = (\<lambda>t el n. True),
      field_value = (\<lambda>t el a.
         if el = (By_ID, ''i0116'') then Some ''user@example.com''
         else if el = (By_NAME, ''passwd'') then Some ''hunter2''
         else Some ''492039''),
      source = (\<lambda>t. ''<html></html>''),
      cookies = (\<lambda>t. []),
      http_response = (\<lambda>t url cs.
         Response 200 (Some (JObj [(''userInfo'', JObj [(''isRewardsUser'', JBool False)])]))),
      totp_now = (\<lambda>t secret. ''492039''),
      re_other = (\<lambda>pattern s. Inr False)\<rparr>"


text \<open>
  The trace of the example flow when it has entered the email and the password and found
  no passwordless marker.
\<close>

definition example_trace :: "event list" where
  "example_trace =
     [WaitVisible (By_ID, ''i0116'') 10, Click (By_ID, ''i0116''),
      SendKeys (By_ID, ''i0116'') ''user@example.com'',
      GetAttribute (By_ID, ''i0116'') ''value'',
      WaitClickable (By_ID, ''idSIButton9'') 10, Click (By_ID, ''idSIButton9''),
      WaitVisible (By_ID, ''displaySign'') 10,
      WaitClickable (By_NAME, ''passwd'') 10, Click (By_NAME, ''passwd''),
      SendKeys (By_NAME, ''passwd'') ''hunter2'',
      GetAttribute (By_NAME, ''passwd'') ''value'',
      WaitClickable (By_ID, ''idSIButton9'') 10, Click (By_ID, ''idSIButton9'')]"


text \<open>
  The condition of the first \<^verbatim>\<open>if\<close> of \<^verbatim>\<open>isLoggedIn\<close>, evaluated on the trace \<open>tr\<close>: the
  account-info request succeeds and its \<^verbatim>\<open>isRewardsUser\<close> entry is truthy.
\<close>

definition answers_rewards_user :: "world \<Rightarrow> event list \<Rightarrow> bool" where
  "answers_rewards_user w tr =
     (case getBingInfo w tr of
        (Inr info, tr1) \<Rightarrow>
          (case getitem info ''isRewardsUser'' tr1 of
             (Inr isRewardsUser, _) \<Rightarrow> truthy isRewardsUser
           | (Inl _, _) \<Rightarrow> False)
      | (Inl _, _) \<Rightarrow> False)"

text \<open>The example page for a session whose account-info request reports a rewards user.\<close>

definition rewards_user_world :: world where
  "rewards_user_world =
     example_world\<lparr>http_response := \<lambda>t url cs.
        Response 200 (Some (JObj [(''userInfo'', JObj [(''isRewardsUser'', JBool True)])]))\<rparr>"

section \<open>Properties of the run-status file\<close>

lemma manage_running_status_set:
  "manage_running_status ''set'' (PyBool v) fs = (Inr None, Some [if v then 1 else 0])"
  by (simp add: manage_running_status_def struct_pack_bool_def)

lemma manage_running_status_reset:
  "manage_running_status ''reset'' val fs = (Inr None, None)"
  by (simp add: manage_running_status_def split: option.splits)

lemma manage_running_status_get_Some:
  "manage_running_status ''get'' val (Some content) =
     (case content of
        [] \<Rightarrow> (Inl StructError, Some content)
      | b # _ \<Rightarrow> (Inr (Some (b \<noteq> 0)), Some content))"
  by (cases content)
     (simp_all add: manage_running_status_def struct_unpack_bool_def file_read_def)

text \<open>
  Claim C8. Reading the status after \<open>set(true)\<close> gives true, after \<open>set(false)\<close>
  gives false, after \<open>reset()\<close> gives false, and reading a store whose backing file
  is missing gives false; none of these reads raises.
\<close>

theorem run_status_round_trip:
  "fst (manage_running_status ''get'' PyNone
          (snd (manage_running_status ''set'' (PyBool True) fs))) = Inr (Some True)
   \<and> fst (manage_running_status ''get'' PyNone
          (snd (manage_running_status ''set'' (PyBool False) fs))) = Inr (Some False)
   \<and> fst (manage_running_status ''get'' PyNone
          (snd (manage_running_status ''reset'' PyNone fs))) = Inr (Some False)
   \<and> fst (manage_running_status ''get'' PyNone None) = Inr (Some False)"
  by (simp add: manage_running_status_set manage_running_status_reset
        manage_running_status_get_Some)
     (simp add: manage_running_status_def)

text \<open>
  Claim C9. Of all the states of the backing file, \<open>get\<close> turns only the missing file
  into false. On a file that exists and is empty the one-byte unpack raises
  \<^verbatim>\<open>struct.error\<close> and no boolean is returned; on a file of one byte or more the
  first byte alone decides: non-zero is true, whatever follows it.
\<close>

theorem run_status_get_cases:
  "manage_running_status ''get'' val None = (Inr (Some False), None)
   \<and> manage_running_status ''get'' val (Some []) = (Inl StructError, Some [])
   \<and> manage_running_status ''get'' val (Some (b # rest)) =
       (Inr (Some (b \<noteq> 0)), Some (b # rest))"
  by (simp add: manage_running_status_get_Some)
     (simp add: manage_running_status_def)

section \<open>Properties of the sign-in flow\<close>

lemmas prim_defs = and_then_def ret_def raise_def py_assert_def emit_def outcome_def
  webdriver_get_def click_def send_keys_def get_attribute_def page_source_def sleep_def
  print_def input_def waitUntilVisible_def waitUntilClickable_def suppress_timeout_def

lemma and_then_Inl: "m tr = (Inl e, tr') \<Longrightarrow> and_then m f tr = (Inl e, tr')"
  by (simp add: and_then_def)

lemma and_then_Inr: "m tr = (Inr x, tr') \<Longrightarrow> and_then m f tr = f x tr'"
  by (simp add: and_then_def)


















lemma sleep_five: "sleep 5 tr = (Inr (), tr @ [Sleep 5])"
  by (simp add: sleep_def)


declare dashboard_loop.simps [simp del]














lemma signIn_after_password:
  assumes "password_submitted w acct tr = Some tr3"
  shows "signIn w args acct tr = twoFactor w args acct tr3"
  using assms
  by (auto simp: password_submitted_def signIn_def and_then_def
      split: prod.splits sum.splits bool.splits if_splits)







lemma moments:
  "n + 1 = Suc n"
  "n + 3 = Suc (Suc (Suc n))"
  "n + 4 = Suc (Suc (Suc (Suc n)))"
  "n + 5 = Suc (Suc (Suc (Suc (Suc n))))"
  by simp_all

lemma example_password_submitted_gen:
  assumes "\<And>t. f t (By_ID, ''i0116'') 10" and "\<And>t. \<not> f t (By_ID, ''displaySign'') 10"
  shows "password_submitted (example_world\<lparr>appears := f, totp_now := g\<rparr>)
           (example_account\<lparr>totp := s\<rparr>) [] = Some example_trace"
  using assms
  by (simp add: password_submitted_def enterEmail_def enterPassword_def prim_defs
        example_world_def example_account_def example_trace_def)

lemma twoFactor_device:
  assumes "appears w (length tr) (By_ID, ''idSpan_SAOTCAS_DescSessionID'') 10"
  shows "twoFactor w args acct tr =
     (Inl (Exception ''Unfortunatly, device auth is not supported yet. Turn on passwordless login in your account settings, use TOTPs or remove 2FA altogether.''),
      tr @ [WaitVisible (By_ID, ''idSpan_SAOTCAS_DescSessionID'') 10,
            WaitVisible (By_ID, ''idTxtBx_SAOTCC_OTC'') 1,
            Enter PasswordDeviceAuth])"
  using assms by (simp add: twoFactor_def prim_defs)

lemma executeLogin_signIn_error:
  "signIn w args acct tr = (Inl e, tr') \<Longrightarrow> executeLogin w args acct tr = (Inl e, tr')"
  by (simp add: executeLogin_def and_then_Inl)

text \<open>
  Claim C3. Once the password is submitted, whenever the wait for the device-confirmation
  marker finds it, \<^verbatim>\<open>executeLogin\<close> raises the exception that tells the operator to turn
  on passwordless login, use one-time codes or remove the second factor. Between the
  submission and the exception the flow only waits (for the device marker, and one second
  for the code input): it clicks nothing and types nothing. The outcome of the wait for
  the code input does not matter.
\<close>

theorem device_auth_unsupported:
  assumes "password_submitted w acct tr = Some tr3"
    and "appears w (length tr3) (By_ID, ''idSpan_SAOTCAS_DescSessionID'') 10"
  shows "executeLogin w args acct tr =
     (Inl (Exception ''Unfortunatly, device auth is not supported yet. Turn on passwordless login in your account settings, use TOTPs or remove 2FA altogether.''),
      tr3 @ [WaitVisible (By_ID, ''idSpan_SAOTCAS_DescSessionID'') 10,
             WaitVisible (By_ID, ''idTxtBx_SAOTCC_OTC'') 1,
             Enter PasswordDeviceAuth])"
  by (rule executeLogin_signIn_error)
     (simp only: signIn_after_password [OF assms(1)] twoFactor_device [OF assms(2)])

text \<open>On a page that shows both the device marker and the code input.\<close>

theorem device_auth_unsupported_witness:
  "executeLogin (example_world\<lparr>appears := \<lambda>t el n. el \<noteq> (By_ID, ''displaySign''),
        totp_now := \<lambda>t secret. ''492039''\<rparr>)
     \<lparr>visible = True\<rparr> (example_account\<lparr>totp := Some ''JBSW Y3DP''\<rparr>) [] =
     (Inl (Exception ''Unfortunatly, device auth is not supported yet. Turn on passwordless login in your account settings, use TOTPs or remove 2FA altogether.''),
      example_trace @ [WaitVisible (By_ID, ''idSpan_SAOTCAS_DescSessionID'') 10,
             WaitVisible (By_ID, ''idTxtBx_SAOTCC_OTC'') 1,
             Enter PasswordDeviceAuth])"
  by (rule device_auth_unsupported [OF example_password_submitted_gen]) simp_all

lemma enterEmail_mismatch:
  assumes "appears w (length tr) (By_ID, ''i0116'') 10"
    and "field_value w (length tr + 3) (By_ID, ''i0116'') ''value'' \<noteq> Some (username acct)"
  shows "enterEmail w acct tr =
     (Inl (AssertionError []),
      tr @ [WaitVisible (By_ID, ''i0116'') 10, Click (By_ID, ''i0116''),
            SendKeys (By_ID, ''i0116'') (username acct),
            GetAttribute (By_ID, ''i0116'') ''value''])"
  using assms by (simp add: enterEmail_def prim_defs moments)

lemma enterPassword_mismatch:
  assumes "becomes_clickable w (length tr) (By_NAME, ''passwd'') 10"
    and "field_value w (length tr + 3) (By_NAME, ''passwd'') ''value'' \<noteq> Some (password acct)"
  shows "enterPassword w acct tr =
     (Inl (AssertionError []),
      tr @ [WaitClickable (By_NAME, ''passwd'') 10, Click (By_NAME, ''passwd''),
            SendKeys (By_NAME, ''passwd'') (password acct),
            GetAttribute (By_NAME, ''passwd'') ''value''])"
  using assms by (simp add: enterPassword_def prim_defs moments)

lemma enterOTP_mismatch:
  assumes "becomes_clickable w (length tr) (By_ID, ''idTxtBx_SAOTCC_OTC'') 10"
    and "field_value w (length tr + 2) (By_ID, ''idTxtBx_SAOTCC_OTC'') ''value''
           \<noteq> Some (totp_now w (length tr) (filter (\<lambda>c. c \<noteq> CHR '' '') secret))"
  shows "enterOTP w secret tr =
     (Inl (AssertionError []),
      tr @ [WaitClickable (By_ID, ''idTxtBx_SAOTCC_OTC'') 10,
            SendKeys (By_ID, ''idTxtBx_SAOTCC_OTC'')
              (totp_now w (length tr) (filter (\<lambda>c. c \<noteq> CHR '' '') secret)),
            GetAttribute (By_ID, ''idTxtBx_SAOTCC_OTC'') ''value''])"
  using assms by (simp add: enterOTP_def totp_code_def prim_defs moments)

lemma enterEmail_echo:
  "enterEmail w acct tr = (Inr (), tr1) \<Longrightarrow>
     field_value w (length tr + 3) (By_ID, ''i0116'') ''value'' = Some (username acct)"
  by (simp add: enterEmail_def prim_defs moments split: if_splits)

lemma enterPassword_echo:
  "enterPassword w acct tr = (Inr (), tr1) \<Longrightarrow>
     field_value w (length tr + 3) (By_NAME, ''passwd'') ''value'' = Some (password acct)"
  by (simp add: enterPassword_def prim_defs moments split: if_splits)

lemma enterOTP_echo:
  "enterOTP w secret tr = (Inr (), tr1) \<Longrightarrow>
     field_value w (length tr + 2) (By_ID, ''idTxtBx_SAOTCC_OTC'') ''value''
       = Some (totp_now w (length tr) (filter (\<lambda>c. c \<noteq> CHR '' '') secret))"
  by (simp add: enterOTP_def totp_code_def prim_defs moments split: if_splits)

lemma twoFactor_totp:
  assumes "\<not> appears w (length tr) (By_ID, ''idSpan_SAOTCAS_DescSessionID'') 10"
    and "appears w (length tr + 1) (By_ID, ''idTxtBx_SAOTCC_OTC'') 1"
    and "totp acct = Some secret"
  shows "twoFactor w args acct tr =
     enterOTP w secret
       (tr @ [WaitVisible (By_ID, ''idSpan_SAOTCAS_DescSessionID'') 10,
              WaitVisible (By_ID, ''idTxtBx_SAOTCC_OTC'') 1, Enter PasswordTOTP])"
  using assms by (simp add: twoFactor_def prim_defs moments)

lemma twoFactor_manual:
  assumes "\<not> appears w (length tr) (By_ID, ''idSpan_SAOTCAS_DescSessionID'') 10"
    and "appears w (length tr + 1) (By_ID, ''idTxtBx_SAOTCC_OTC'') 1"
    and "totp acct = None"
  shows "twoFactor w args acct tr =
     manual2FA args
       (tr @ [WaitVisible (By_ID, ''idSpan_SAOTCAS_DescSessionID'') 10,
              WaitVisible (By_ID, ''idTxtBx_SAOTCC_OTC'') 1, Enter PasswordManual2FA])"
  using assms by (simp add: twoFactor_def prim_defs moments)

lemma signIn_password_error:
  assumes "enterEmail w acct tr = (Inr (), tr1)"
    and "\<not> appears w (length tr1) (By_ID, ''displaySign'') 10"
    and "enterPassword w acct (tr1 @ [WaitVisible (By_ID, ''displaySign'') 10]) = (Inl e, tr')"
  shows "signIn w args acct tr = (Inl e, tr')"
  using assms by (simp add: signIn_def and_then_def suppress_timeout_def waitUntilVisible_def)

text \<open>
  Claim C4. For the email, the password and the one-time code: if the value read back from
  the field after typing differs from what was typed, \<^verbatim>\<open>executeLogin\<close> ends with an
  \<^verbatim>\<open>AssertionError\<close> and the read-back is the last event, so the form is not submitted
  and nothing is typed again; and whenever one of the three steps completes, the value
  read back was exactly the value typed.
\<close>

theorem echo_mismatch_aborts:
  "(appears w (length tr) (By_ID, ''i0116'') 10
      \<and> field_value w (length tr + 3) (By_ID, ''i0116'') ''value'' \<noteq> Some (username acct)
    \<longrightarrow> executeLogin w args acct tr =
         (Inl (AssertionError []),
          tr @ [WaitVisible (By_ID, ''i0116'') 10, Click (By_ID, ''i0116''),
                SendKeys (By_ID, ''i0116'') (username acct),
                GetAttribute (By_ID, ''i0116'') ''value'']))
   \<and> (enterEmail w acct tr = (Inr (), tr1)
      \<and> \<not> appears w (length tr1) (By_ID, ''displaySign'') 10
      \<and> becomes_clickable w (length tr1 + 1) (By_NAME, ''passwd'') 10
      \<and> field_value w (length tr1 + 4) (By_NAME, ''passwd'') ''value'' \<noteq> Some (password acct)
    \<longrightarrow> executeLogin w args acct tr =
         (Inl (AssertionError []),
          tr1 @ [WaitVisible (By_ID, ''displaySign'') 10,
                 WaitClickable (By_NAME, ''passwd'') 10, Click (By_NAME, ''passwd''),
                 SendKeys (By_NAME, ''passwd'') (password acct),
                 GetAttribute (By_NAME, ''passwd'') ''value'']))
   \<and> (password_submitted w acct tr = Some tr3
      \<and> \<not> appears w (length tr3) (By_ID, ''idSpan_SAOTCAS_DescSessionID'') 10
      \<and> appears w (length tr3 + 1) (By_ID, ''idTxtBx_SAOTCC_OTC'') 1
      \<and> totp acct = Some secret
      \<and> becomes_clickable w (length tr3 + 3) (By_ID, ''idTxtBx_SAOTCC_OTC'') 10
      \<and> field_value w (length tr3 + 5) (By_ID, ''idTxtBx_SAOTCC_OTC'') ''value''
           \<noteq> Some (totp_now w (length tr3 + 3) (filter (\<lambda>c. c \<noteq> CHR '' '') secret))
    \<longrightarrow> executeLogin w args acct tr =
         (Inl (AssertionError []),
          tr3 @ [WaitVisible (By_ID, ''idSpan_SAOTCAS_DescSessionID'') 10,
                 WaitVisible (By_ID, ''idTxtBx_SAOTCC_OTC'') 1, Enter PasswordTOTP,
                 WaitClickable (By_ID, ''idTxtBx_SAOTCC_OTC'') 10,
                 SendKeys (By_ID, ''idTxtBx_SAOTCC_OTC'')
                   (totp_now w (length tr3 + 3) (filter (\<lambda>c. c \<noteq> CHR '' '') secret)),
                 GetAttribute (By_ID, ''idTxtBx_SAOTCC_OTC'') ''value'']))
   \<and> (enterEmail w acct tr = (Inr (), tr1)
    \<longrightarrow> field_value w (length tr + 3) (By_ID, ''i0116'') ''value'' = Some (username acct))
   \<and> (enterPassword w acct tr = (Inr (), tr1)
    \<longrightarrow> field_value w (length tr + 3) (By_NAME, ''passwd'') ''value'' = Some (password acct))
   \<and> (enterOTP w secret tr = (Inr (), tr1)
    \<longrightarrow> field_value w (length tr + 2) (By_ID, ''idTxtBx_SAOTCC_OTC'') ''value''
         = Some (totp_now w (length tr) (filter (\<lambda>c. c \<noteq> CHR '' '') secret)))"
proof (intro conjI impI)
  assume a: "appears w (length tr) (By_ID, ''i0116'') 10
      \<and> field_value w (length tr + 3) (By_ID, ''i0116'') ''value'' \<noteq> Some (username acct)"
  show "executeLogin w args acct tr =
         (Inl (AssertionError []),
          tr @ [WaitVisible (By_ID, ''i0116'') 10, Click (By_ID, ''i0116''),
                SendKeys (By_ID, ''i0116'') (username acct),
                GetAttribute (By_ID, ''i0116'') ''value''])"
    by (rule executeLogin_signIn_error)
       (simp add: signIn_def and_then_Inl [OF enterEmail_mismatch] a)
next
  assume a: "enterEmail w acct tr = (Inr (), tr1)
      \<and> \<not> appears w (length tr1) (By_ID, ''displaySign'') 10
      \<and> becomes_clickable w (length tr1 + 1) (By_NAME, ''passwd'') 10
      \<and> field_value w (length tr1 + 4) (By_NAME, ''passwd'') ''value'' \<noteq> Some (password acct)"
  have "enterPassword w acct (tr1 @ [WaitVisible (By_ID, ''displaySign'') 10]) =
      (Inl (AssertionError []),
       (tr1 @ [WaitVisible (By_ID, ''displaySign'') 10]) @
         [WaitClickable (By_NAME, ''passwd'') 10, Click (By_NAME, ''passwd''),
          SendKeys (By_NAME, ''passwd'') (password acct),
          GetAttribute (By_NAME, ''passwd'') ''value''])"
    using a by (intro enterPassword_mismatch) (simp_all add: moments)
  with a show "executeLogin w args acct tr =
         (Inl (AssertionError []),
          tr1 @ [WaitVisible (By_ID, ''displaySign'') 10,
                 WaitClickable (By_NAME, ''passwd'') 10, Click (By_NAME, ''passwd''),
                 SendKeys (By_NAME, ''passwd'') (password acct),
                 GetAttribute (By_NAME, ''passwd'') ''value''])"
    by (intro executeLogin_signIn_error signIn_password_error [of w acct tr tr1]) simp_all
next
  assume a: "password_submitted w acct tr = Some tr3
      \<and> \<not> appears w (length tr3) (By_ID, ''idSpan_SAOTCAS_DescSessionID'') 10
      \<and> appears w (length tr3 + 1) (By_ID, ''idTxtBx_SAOTCC_OTC'') 1
      \<and> totp acct = Some secret
      \<and> becomes_clickable w (length tr3 + 3) (By_ID, ''idTxtBx_SAOTCC_OTC'') 10
      \<and> field_value w (length tr3 + 5) (By_ID, ''idTxtBx_SAOTCC_OTC'') ''value''
           \<noteq> Some (totp_now w (length tr3 + 3) (filter (\<lambda>c. c \<noteq> CHR '' '') secret))"
  let ?tr = "tr3 @ [WaitVisible (By_ID, ''idSpan_SAOTCAS_DescSessionID'') 10,
                 WaitVisible (By_ID, ''idTxtBx_SAOTCC_OTC'') 1, Enter PasswordTOTP]"
  have c: "becomes_clickable w (length ?tr) (By_ID, ''idTxtBx_SAOTCC_OTC'') 10"
    using a by (simp add: moments)
  have m: "field_value w (length ?tr + 2) (By_ID, ''idTxtBx_SAOTCC_OTC'') ''value''
      \<noteq> Some (totp_now w (length ?tr) (filter (\<lambda>c. c \<noteq> CHR '' '') secret))"
    using a by (simp add: moments)
  have "signIn w args acct tr = enterOTP w secret ?tr"
    using a by (simp add: signIn_after_password [of w acct tr tr3] twoFactor_totp)
  also note enterOTP_mismatch [OF c m]
  finally have "signIn w args acct tr =
         (Inl (AssertionError []),
          tr3 @ [WaitVisible (By_ID, ''idSpan_SAOTCAS_DescSessionID'') 10,
                 WaitVisible (By_ID, ''idTxtBx_SAOTCC_OTC'') 1, Enter PasswordTOTP,
                 WaitClickable (By_ID, ''idTxtBx_SAOTCC_OTC'') 10,
                 SendKeys (By_ID, ''idTxtBx_SAOTCC_OTC'')
                   (totp_now w (length tr3 + 3) (filter (\<lambda>c. c \<noteq> CHR '' '') secret)),
                 GetAttribute (By_ID, ''idTxtBx_SAOTCC_OTC'') ''value''])"
    by (simp add: moments)
  then show "executeLogin w args acct tr =
         (Inl (AssertionError []),
          tr3 @ [WaitVisible (By_ID, ''idSpan_SAOTCAS_DescSessionID'') 10,
                 WaitVisible (By_ID, ''idTxtBx_SAOTCC_OTC'') 1, Enter PasswordTOTP,
                 WaitClickable (By_ID, ''idTxtBx_SAOTCC_OTC'') 10,
                 SendKeys (By_ID, ''idTxtBx_SAOTCC_OTC'')
                   (totp_now w (length tr3 + 3) (filter (\<lambda>c. c \<noteq> CHR '' '') secret)),
                 GetAttribute (By_ID, ''idTxtBx_SAOTCC_OTC'') ''value''])"
    by (rule executeLogin_signIn_error)
qed (rule enterEmail_echo enterPassword_echo enterOTP_echo, assumption)+

text \<open>
  On pages that garble the email, the password or the code, and on the example page,
  which echoes all three.
\<close>

theorem echo_mismatch_aborts_witness:
  "executeLogin (example_world\<lparr>field_value := \<lambda>t el a. Some ''x''\<rparr>) \<lparr>visible = False\<rparr>
       example_account [] =
     (Inl (AssertionError []),
      [WaitVisible (By_ID, ''i0116'') 10, Click (By_ID, ''i0116''),
       SendKeys (By_ID, ''i0116'') ''user@example.com'',
       GetAttribute (By_ID, ''i0116'') ''value''])
   \<and> executeLogin
       (example_world\<lparr>field_value := \<lambda>t el a.
          if el = (By_ID, ''i0116'') then Some ''user@example.com'' else Some ''x''\<rparr>)
       \<lparr>visible = False\<rparr> example_account [] =
     (Inl (AssertionError []),
      [WaitVisible (By_ID, ''i0116'') 10, Click (By_ID, ''i0116''),
       SendKeys (By_ID, ''i0116'') ''user@example.com'',
       GetAttribute (By_ID, ''i0116'') ''value'',
       WaitClickable (By_ID, ''idSIButton9'') 10, Click (By_ID, ''idSIButton9''),
       WaitVisible (By_ID, ''displaySign'') 10,
       WaitClickable (By_NAME, ''passwd'') 10, Click (By_NAME, ''passwd''),
       SendKeys (By_NAME, ''passwd'') ''hunter2'',
       GetAttribute (By_NAME, ''passwd'') ''value''])
   \<and> executeLogin
       (example_world\<lparr>appears := \<lambda>t el n. el \<noteq> (By_ID, ''displaySign'')
            \<and> el \<noteq> (By_ID, ''idSpan_SAOTCAS_DescSessionID''),
          totp_now := \<lambda>t secret. ''000000''\<rparr>)
       \<lparr>visible = False\<rparr> (example_account\<lparr>totp := Some ''JBSW Y3DP''\<rparr>) [] =
     (Inl (AssertionError []),
      example_trace @
      [WaitVisible (By_ID, ''idSpan_SAOTCAS_DescSessionID'') 10,
       WaitVisible (By_ID, ''idTxtBx_SAOTCC_OTC'') 1, Enter PasswordTOTP,
       WaitClickable (By_ID, ''idTxtBx_SAOTCC_OTC'') 10,
       SendKeys (By_ID, ''idTxtBx_SAOTCC_OTC'') ''000000'',
       GetAttribute (By_ID, ''idTxtBx_SAOTCC_OTC'') ''value''])
   \<and> field_value example_world 3 (By_ID, ''i0116'') ''value'' = Some ''user@example.com''
   \<and> field_value example_world 3 (By_NAME, ''passwd'') ''value'' = Some ''hunter2''
   \<and> field_value example_world 2 (By_ID, ''idTxtBx_SAOTCC_OTC'') ''value'' = Some ''492039''"
proof (intro conjI)
  show "executeLogin (example_world\<lparr>field_value := \<lambda>t el a. Some ''x''\<rparr>) \<lparr>visible = False\<rparr>
       example_account [] =
     (Inl (AssertionError []),
      [WaitVisible (By_ID, ''i0116'') 10, Click (By_ID, ''i0116''),
       SendKeys (By_ID, ''i0116'') ''user@example.com'',
       GetAttribute (By_ID, ''i0116'') ''value''])"
    using echo_mismatch_aborts [where w = "example_world\<lparr>field_value := \<lambda>t el a. Some ''x''\<rparr>"
        and tr = "[]" and acct = example_account and args = "\<lparr>visible = False\<rparr>",
        THEN conjunct1]
    by (simp add: example_world_def example_account_def)
next
  let ?w = "example_world\<lparr>field_value := \<lambda>t el a.
          if el = (By_ID, ''i0116'') then Some ''user@example.com'' else Some ''x''\<rparr>"
  let ?tr1 = "[WaitVisible (By_ID, ''i0116'') 10, Click (By_ID, ''i0116''),
       SendKeys (By_ID, ''i0116'') ''user@example.com'',
       GetAttribute (By_ID, ''i0116'') ''value'',
       WaitClickable (By_ID, ''idSIButton9'') 10, Click (By_ID, ''idSIButton9'')]"
  have e: "enterEmail ?w example_account [] = (Inr (), ?tr1)"
    by (simp add: enterEmail_def prim_defs example_world_def example_account_def)
  show "executeLogin ?w \<lparr>visible = False\<rparr> example_account [] =
     (Inl (AssertionError []),
      [WaitVisible (By_ID, ''i0116'') 10, Click (By_ID, ''i0116''),
       SendKeys (By_ID, ''i0116'') ''user@example.com'',
       GetAttribute (By_ID, ''i0116'') ''value'',
       WaitClickable (By_ID, ''idSIButton9'') 10, Click (By_ID, ''idSIButton9''),
       WaitVisible (By_ID, ''displaySign'') 10,
       WaitClickable (By_NAME, ''passwd'') 10, Click (By_NAME, ''passwd''),
       SendKeys (By_NAME, ''passwd'') ''hunter2'',
       GetAttribute (By_NAME, ''passwd'') ''value''])"
    using echo_mismatch_aborts [where w = ?w and tr = "[]" and acct = example_account
        and args = "\<lparr>visible = False\<rparr>" and ?tr1.0 = ?tr1, THEN conjunct2, THEN conjunct1] e
    by (simp add: example_world_def example_account_def)
next
  let ?w = "example_world\<lparr>appears := \<lambda>t el n. el \<noteq> (By_ID, ''displaySign'')
            \<and> el \<noteq> (By_ID, ''idSpan_SAOTCAS_DescSessionID''),
          totp_now := \<lambda>t secret. ''000000''\<rparr>"
  let ?acct = "example_account\<lparr>totp := Some ''JBSW Y3DP''\<rparr>"
  have p: "password_submitted ?w ?acct [] = Some example_trace"
    by (rule example_password_submitted_gen) simp_all
  have l: "length example_trace = 13"
    by (simp add: example_trace_def)
  show "executeLogin ?w \<lparr>visible = False\<rparr> ?acct [] =
     (Inl (AssertionError []),
      example_trace @
      [WaitVisible (By_ID, ''idSpan_SAOTCAS_DescSessionID'') 10,
       WaitVisible (By_ID, ''idTxtBx_SAOTCC_OTC'') 1, Enter PasswordTOTP,
       WaitClickable (By_ID, ''idTxtBx_SAOTCC_OTC'') 10,
       SendKeys (By_ID, ''idTxtBx_SAOTCC_OTC'') ''000000'',
       GetAttribute (By_ID, ''idTxtBx_SAOTCC_OTC'') ''value''])"
    using echo_mismatch_aborts [where w = ?w and tr = "[]" and acct = ?acct
        and args = "\<lparr>visible = False\<rparr>" and ?tr3.0 = example_trace
        and secret = "''JBSW Y3DP''",
        THEN conjunct2, THEN conjunct2, THEN conjunct1] p
    by (simp add: l example_world_def example_account_def)
next
  have e: "enterEmail example_world example_account [] =
    (Inr (), [WaitVisible (By_ID, ''i0116'') 10, Click (By_ID, ''i0116''),
       SendKeys (By_ID, ''i0116'') ''user@example.com'',
       GetAttribute (By_ID, ''i0116'') ''value'',
       WaitClickable (By_ID, ''idSIButton9'') 10, Click (By_ID, ''idSIButton9'')])"
    by (simp add: enterEmail_def prim_defs example_world_def example_account_def)
  show "field_value example_world 3 (By_ID, ''i0116'') ''value'' = Some ''user@example.com''"
    using echo_mismatch_aborts [where w = example_world and tr = "[]"
        and acct = example_account,
        THEN conjunct2, THEN conjunct2, THEN conjunct2, THEN conjunct1, rule_format, OF e]
    by (simp add: example_account_def)
next
  have e: "enterPassword example_world example_account [] =
    (Inr (), [WaitClickable (By_NAME, ''passwd'') 10, Click (By_NAME, ''passwd''),
       SendKeys (By_NAME, ''passwd'') ''hunter2'',
       GetAttribute (By_NAME, ''passwd'') ''value'',
       WaitClickable (By_ID, ''idSIButton9'') 10, Click (By_ID, ''idSIButton9'')])"
    by (simp add: enterPassword_def prim_defs example_world_def example_account_def)
  show "field_value example_world 3 (By_NAME, ''passwd'') ''value'' = Some ''hunter2''"
    using echo_mismatch_aborts [where w = example_world and tr = "[]"
        and acct = example_account,
        THEN conjunct2, THEN conjunct2, THEN conjunct2, THEN conjunct2, THEN conjunct1,
        rule_format, OF e]
    by (simp add: example_account_def)
next
  have e: "enterOTP example_world ''JBSW Y3DP'' [] =
    (Inr (), [WaitClickable (By_ID, ''idTxtBx_SAOTCC_OTC'') 10,
       SendKeys (By_ID, ''idTxtBx_SAOTCC_OTC'') ''492039'',
       GetAttribute (By_ID, ''idTxtBx_SAOTCC_OTC'') ''value'',
       WaitClickable (By_ID, ''idSubmit_SAOTCC_Continue'') 10,
       Click (By_ID, ''idSubmit_SAOTCC_Continue'')])"
    by (simp add: enterOTP_def totp_code_def prim_defs example_world_def)
  show "field_value example_world 2 (By_ID, ''idTxtBx_SAOTCC_OTC'') ''value'' = Some ''492039''"
    using echo_mismatch_aborts [where w = example_world and tr = "[]"
        and secret = "''JBSW Y3DP''",
        THEN conjunct2, THEN conjunct2, THEN conjunct2, THEN conjunct2, THEN conjunct2,
        rule_format, OF e]
    by (simp add: example_world_def)
qed

lemma example_password_submitted_any:
  assumes "\<And>t. appears w t (By_ID, ''i0116'') 10"
    and "\<And>t. \<not> appears w t (By_ID, ''displaySign'') 10"
    and "\<And>t el n. becomes_clickable w t el n"
    and "field_value w = field_value example_world"
  shows "password_submitted w (example_account\<lparr>totp := s\<rparr>) [] = Some example_trace"
  using assms
  by (simp add: password_submitted_def enterEmail_def enterPassword_def prim_defs
        example_world_def example_account_def example_trace_def)

lemma manual2FA_cases:
  "manual2FA args tr =
     (if visible args
      then (Inr (), tr @ [Print ''[LOGIN] 2FA detected, handle prompts and press enter when on keep me signed in page.'', Input])
      else (Inl (AssertionError ''[LOGIN] 2FA detected, provide token in accounts.json or run in visible mode to handle login.''), tr))"
  by (simp add: manual2FA_def prim_defs)

lemma match_prefix_Null: "match_prefix Null s = False"
  by (induction s) simp_all

lemma match_prefix_Or: "match_prefix (Or a b) s = (match_prefix a s \<or> match_prefix b s)"
  by (induction s arbitrary: a b) auto

lemma match_prefix_Cat_Null: "match_prefix (Cat Null r) s = False"
  by (induction s) simp_all

lemma match_prefix_Cat_Eps: "match_prefix (Cat Eps r) s = match_prefix r s"
  by (cases s) (simp_all add: match_prefix_Or match_prefix_Cat_Null)

lemma match_prefix_Eps: "match_prefix Eps s"
  by (cases s) simp_all

lemma match_prefix_literal:
  "match_prefix (cat_all (map Lit p)) s = (\<exists>v. s = p @ v)"
proof (induction p arbitrary: s)
  case Nil
  then show ?case by (simp add: match_prefix_Eps)
next
  case (Cons a p)
  show ?case
  proof (cases s)
    case Nil
    then show ?thesis by simp
  next
    case (Cons c cs)
    then show ?thesis
      by (simp add: Cons.IH match_prefix_Cat_Eps match_prefix_Cat_Null)
  qed
qed

lemma search_iff: "search r s = (\<exists>u t. s = u @ t \<and> match_prefix r t)"
proof (induction s)
  case Nil
  then show ?case by simp
next
  case (Cons c cs)
  show ?case
  proof
    assume "search r (c # cs)"
    then consider "match_prefix r (c # cs)" | "search r cs" by auto
    then show "\<exists>u t. c # cs = u @ t \<and> match_prefix r t"
    proof cases
      case 1
      then show ?thesis by (intro exI [of _ "[]"] exI [of _ "c # cs"]) simp
    next
      case 2
      with Cons.IH obtain u t where "cs = u @ t" "match_prefix r t" by blast
      then show ?thesis by (intro exI [of _ "c # u"] exI [of _ t]) simp
    qed
  next
    assume "\<exists>u t. c # cs = u @ t \<and> match_prefix r t"
    then obtain u t where ut: "c # cs = u @ t" "match_prefix r t" by blast
    show "search r (c # cs)"
    proof (cases u)
      case Nil
      with ut have "match_prefix r (c # cs)" by simp
      then show ?thesis by simp
    next
      case (Cons a u')
      with ut have "cs = u' @ t" by simp
      with ut(2) Cons.IH have "search r cs" by blast
      then show ?thesis by simp
    qed
  qed
qed

lemma parse_literal:
  "\<forall>c \<in> set p. \<not> special c \<Longrightarrow>
     parse f [] q p = Pattern (close_frame (fst f, rev (map Lit p) @ snd f))"
proof (induction p arbitrary: f q)
  case Nil
  then show ?case by simp
next
  case (Cons c p)
  then have c: "\<not> special c" and p: "\<forall>c \<in> set p. \<not> special c" by simp_all
  from c have ne: "c \<noteq> CHR 0x5C" "c \<noteq> CHR ''.''" "c \<noteq> CHR ''*''" "c \<noteq> CHR ''+''"
    "c \<noteq> CHR ''?''" "c \<noteq> CHR ''|''" "c \<noteq> CHR ''(''" "c \<noteq> CHR '')''"
    by (auto simp: special_def)
  show ?case
    using Cons.IH [OF p, of "(fst f, Lit c # snd f)" False] c ne by simp
qed

lemma re_search_literal:
  assumes "\<forall>c \<in> set p. \<not> special c"
  shows "re_search w p s = Inr (\<exists>u v. s = u @ p @ v)"
proof -
  have "search (cat_all (map Lit p)) s = (\<exists>u v. s = u @ p @ v)"
    by (auto simp: search_iff match_prefix_literal)
  then show ?thesis
    by (simp add: re_search_def parse_literal [OF assms] close_frame_def)
qed

lemma re_search_protect:
  "re_search w ''protect your account'' s = Inr (\<exists>u v. s = u @ ''protect your account'' @ v)"
  by (rule re_search_literal) (simp add: special_def)

lemma sleep_accepted:
  assumes "0 \<le> secs" and "secs * 10 ^ 9 < 2 ^ 63"
  shows "sleep secs tr = (Inr (), tr @ [Sleep secs])"
proof -
  have "0 \<le> secs * 10 ^ 9" using assms(1) by simp
  then have "\<not> secs * 10 ^ 9 < - (2 ^ 63)" by (simp add: order.strict_trans2 not_less)
  with assms show ?thesis by (simp add: sleep_def not_less)
qed

lemma checkIfTextPresentAfterDelay_eq:
  assumes "0 \<le> timeToWait" and "timeToWait * 10 ^ 9 < 2 ^ 63"
  shows "checkIfTextPresentAfterDelay w text timeToWait tr =
     (re_search w text (source w (length tr + 1)), tr @ [Sleep timeToWait, PageSource])"
  by (cases "re_search w text (source w (Suc (length tr)))")
     (simp_all add: checkIfTextPresentAfterDelay_def sleep_accepted [OF assms] and_then_def
        page_source_def outcome_def ret_def)

lemma accountProtection_cases:
  "accountProtection w args tr =
     (if re_search w ''protect your account'' (source w (length tr + 1)) = Inr True
      then (if visible args
            then (Inr (), tr @ [Sleep 5, PageSource,
                    Print ''Account protection detected, handle prompts and press enter when on rewards page'',
                    Input])
            else (Inl (AssertionError ''Account protection detected, run in visible mode to handle login''),
                  tr @ [Sleep 5, PageSource]))
      else (Inr (), tr @ [Sleep 5, PageSource]))"
proof -
  have "checkIfTextPresentAfterDelay w ''protect your account'' 5 tr =
      (re_search w ''protect your account'' (source w (length tr + 1)),
       tr @ [Sleep 5, PageSource])"
    by (rule checkIfTextPresentAfterDelay_eq) simp_all
  then show ?thesis
    by (simp add: accountProtection_def and_then_def re_search_protect
          py_assert_def print_def input_def emit_def ret_def)
qed

lemma executeLogin_after_consent:
  assumes "signIn w args acct tr = (Inr (), tr4)" and "consent w tr4 = (Inr (), tr5)"
  shows "executeLogin w args acct tr =
     and_then (accountProtection w args) (\<lambda>_. waitForDashboard w) tr5"
  using assms by (simp add: executeLogin_def and_then_Inr)

text \<open>
  Claim C6. In the manual branch (the code input is shown, the device marker is not, and
  the account has no secret) and on the account-protection page (the probe finds the
  text), a run that is not in visible mode ends at once with an \<^verbatim>\<open>AssertionError\<close> whose
  message tells the operator to provide a token or to run in visible mode; it prints no
  prompt and does not wait for input. In visible mode the flow prints the prompt, waits for
  the operator's \<^verbatim>\<open>input()\<close> and goes on: to the end of the sign-in stage in the manual
  branch, to the dashboard check after the account-protection page.
\<close>

theorem manual_intervention_requires_visible:
  "(password_submitted w acct tr = Some tr3
      \<and> \<not> appears w (length tr3) (By_ID, ''idSpan_SAOTCAS_DescSessionID'') 10
      \<and> appears w (length tr3 + 1) (By_ID, ''idTxtBx_SAOTCC_OTC'') 1
      \<and> totp acct = None \<and> \<not> visible args
    \<longrightarrow> executeLogin w args acct tr =
         (Inl (AssertionError ''[LOGIN] 2FA detected, provide token in accounts.json or run in visible mode to handle login.''),
          tr3 @ [WaitVisible (By_ID, ''idSpan_SAOTCAS_DescSessionID'') 10,
                 WaitVisible (By_ID, ''idTxtBx_SAOTCC_OTC'') 1, Enter PasswordManual2FA]))
   \<and> (password_submitted w acct tr = Some tr3
      \<and> \<not> appears w (length tr3) (By_ID, ''idSpan_SAOTCAS_DescSessionID'') 10
      \<and> appears w (length tr3 + 1) (By_ID, ''idTxtBx_SAOTCC_OTC'') 1
      \<and> totp acct = None \<and> visible args
    \<longrightarrow> signIn w args acct tr =
         (Inr (),
          tr3 @ [WaitVisible (By_ID, ''idSpan_SAOTCAS_DescSessionID'') 10,
                 WaitVisible (By_ID, ''idTxtBx_SAOTCC_OTC'') 1, Enter PasswordManual2FA,
                 Print ''[LOGIN] 2FA detected, handle prompts and press enter when on keep me signed in page.'',
                 Input]))
   \<and> (signIn w args acct tr = (Inr (), tr4) \<and> consent w tr4 = (Inr (), tr5)
      \<and> re_search w ''protect your account'' (source w (length tr5 + 1)) = Inr True
      \<and> \<not> visible args
    \<longrightarrow> executeLogin w args acct tr =
         (Inl (AssertionError ''Account protection detected, run in visible mode to handle login''),
          tr5 @ [Sleep 5, PageSource]))
   \<and> (signIn w args acct tr = (Inr (), tr4) \<and> consent w tr4 = (Inr (), tr5)
      \<and> re_search w ''protect your account'' (source w (length tr5 + 1)) = Inr True
      \<and> visible args
    \<longrightarrow> executeLogin w args acct tr =
         waitForDashboard w
           (tr5 @ [Sleep 5, PageSource,
                   Print ''Account protection detected, handle prompts and press enter when on rewards page'',
                   Input]))"
proof (intro conjI impI)
  assume a: "password_submitted w acct tr = Some tr3
      \<and> \<not> appears w (length tr3) (By_ID, ''idSpan_SAOTCAS_DescSessionID'') 10
      \<and> appears w (length tr3 + 1) (By_ID, ''idTxtBx_SAOTCC_OTC'') 1
      \<and> totp acct = None \<and> \<not> visible args"
  then have "signIn w args acct tr =
         (Inl (AssertionError ''[LOGIN] 2FA detected, provide token in accounts.json or run in visible mode to handle login.''),
          tr3 @ [WaitVisible (By_ID, ''idSpan_SAOTCAS_DescSessionID'') 10,
                 WaitVisible (By_ID, ''idTxtBx_SAOTCC_OTC'') 1, Enter PasswordManual2FA])"
    by (simp add: signIn_after_password [of w acct tr tr3] twoFactor_manual manual2FA_cases)
  then show "executeLogin w args acct tr =
         (Inl (AssertionError ''[LOGIN] 2FA detected, provide token in accounts.json or run in visible mode to handle login.''),
          tr3 @ [WaitVisible (By_ID, ''idSpan_SAOTCAS_DescSessionID'') 10,
                 WaitVisible (By_ID, ''idTxtBx_SAOTCC_OTC'') 1, Enter PasswordManual2FA])"
    by (rule executeLogin_signIn_error)
next
  assume a: "password_submitted w acct tr = Some tr3
      \<and> \<not> appears w (length tr3) (By_ID, ''idSpan_SAOTCAS_DescSessionID'') 10
      \<and> appears w (length tr3 + 1) (By_ID, ''idTxtBx_SAOTCC_OTC'') 1
      \<and> totp acct = None \<and> visible args"
  then show "signIn w args acct tr =
         (Inr (),
          tr3 @ [WaitVisible (By_ID, ''idSpan_SAOTCAS_DescSessionID'') 10,
                 WaitVisible (By_ID, ''idTxtBx_SAOTCC_OTC'') 1, Enter PasswordManual2FA,
                 Print ''[LOGIN] 2FA detected, handle prompts and press enter when on keep me signed in page.'',
                 Input])"
    by (simp add: signIn_after_password [of w acct tr tr3] twoFactor_manual manual2FA_cases)
next
  assume a: "signIn w args acct tr = (Inr (), tr4) \<and> consent w tr4 = (Inr (), tr5)
      \<and> re_search w ''protect your account'' (source w (length tr5 + 1)) = Inr True
      \<and> \<not> visible args"
  then show "executeLogin w args acct tr =
         (Inl (AssertionError ''Account protection detected, run in visible mode to handle login''),
          tr5 @ [Sleep 5, PageSource])"
    by (simp add: executeLogin_after_consent [of w args acct tr tr4 tr5]
          and_then_def accountProtection_cases)
next
  assume a: "signIn w args acct tr = (Inr (), tr4) \<and> consent w tr4 = (Inr (), tr5)
      \<and> re_search w ''protect your account'' (source w (length tr5 + 1)) = Inr True
      \<and> visible args"
  then show "executeLogin w args acct tr =
         waitForDashboard w
           (tr5 @ [Sleep 5, PageSource,
                   Print ''Account protection detected, handle prompts and press enter when on rewards page'',
                   Input])"
    by (simp add: executeLogin_after_consent [of w args acct tr tr4 tr5]
          and_then_def accountProtection_cases)
qed

lemma twoFactor_none:
  assumes "\<not> appears w (length tr) (By_ID, ''idSpan_SAOTCAS_DescSessionID'') 10"
    and "\<not> appears w (length tr + 1) (By_ID, ''idTxtBx_SAOTCC_OTC'') 1"
  shows "twoFactor w args acct tr =
     (Inr (), tr @ [WaitVisible (By_ID, ''idSpan_SAOTCAS_DescSessionID'') 10,
                    WaitVisible (By_ID, ''idTxtBx_SAOTCC_OTC'') 1, Enter PasswordNo2FA])"
  using assms by (simp add: twoFactor_def prim_defs moments)

lemma consent_done:
  assumes "appears w (length tr) (By_NAME, ''kmsiForm'') 10"
    and "becomes_clickable w (length tr + 1) (By_ID, ''acceptButton'') 10"
  shows "consent w tr =
     (Inr (), tr @ [WaitVisible (By_NAME, ''kmsiForm'') 10,
                    WaitClickable (By_ID, ''acceptButton'') 10, Click (By_ID, ''acceptButton'')])"
  using assms by (simp add: consent_def prim_defs moments)


lemma example_signIn_no2FA:
  assumes "\<And>t. appears w t (By_ID, ''i0116'') 10"
    and "\<And>t el. el \<in> {(By_ID, ''displaySign''), (By_ID, ''idSpan_SAOTCAS_DescSessionID'')}
            \<Longrightarrow> \<not> appears w t el 10"
    and "\<And>t. \<not> appears w t (By_ID, ''idTxtBx_SAOTCC_OTC'') 1"
    and "\<And>t el n. becomes_clickable w t el n"
    and "field_value w = field_value example_world"
  shows "signIn w args (example_account\<lparr>totp := s\<rparr>) [] =
     (Inr (), example_trace @
        [WaitVisible (By_ID, ''idSpan_SAOTCAS_DescSessionID'') 10,
         WaitVisible (By_ID, ''idTxtBx_SAOTCC_OTC'') 1, Enter PasswordNo2FA])"
proof -
  have "password_submitted w (example_account\<lparr>totp := s\<rparr>) [] = Some example_trace"
    using assms by (intro example_password_submitted_any) simp_all
  then show ?thesis
    using assms by (simp add: signIn_after_password twoFactor_none)
qed

text \<open>
  On the example page for the manual branch, and on a page without second factor whose
  source holds the account-protection text.
\<close>

theorem manual_intervention_requires_visible_witness:
  "executeLogin example_world \<lparr>visible = False\<rparr> (example_account\<lparr>totp := None\<rparr>) [] =
     (Inl (AssertionError ''[LOGIN] 2FA detected, provide token in accounts.json or run in visible mode to handle login.''),
      example_trace @ [WaitVisible (By_ID, ''idSpan_SAOTCAS_DescSessionID'') 10,
             WaitVisible (By_ID, ''idTxtBx_SAOTCC_OTC'') 1, Enter PasswordManual2FA])
   \<and> signIn example_world \<lparr>visible = True\<rparr> (example_account\<lparr>totp := None\<rparr>) [] =
     (Inr (),
      example_trace @ [WaitVisible (By_ID, ''idSpan_SAOTCAS_DescSessionID'') 10,
             WaitVisible (By_ID, ''idTxtBx_SAOTCC_OTC'') 1, Enter PasswordManual2FA,
             Print ''[LOGIN] 2FA detected, handle prompts and press enter when on keep me signed in page.'',
             Input])
   \<and> executeLogin
       (example_world\<lparr>appears := \<lambda>t el n. el \<noteq> (By_ID, ''displaySign'')
            \<and> el \<noteq> (By_ID, ''idSpan_SAOTCAS_DescSessionID'')
            \<and> el \<noteq> (By_ID, ''idTxtBx_SAOTCC_OTC''),
          source := \<lambda>t. ''Help us protect your account''\<rparr>)
       \<lparr>visible = False\<rparr> (example_account\<lparr>totp := None\<rparr>) [] =
     (Inl (AssertionError ''Account protection detected, run in visible mode to handle login''),
      example_trace @ [WaitVisible (By_ID, ''idSpan_SAOTCAS_DescSessionID'') 10,
             WaitVisible (By_ID, ''idTxtBx_SAOTCC_OTC'') 1, Enter PasswordNo2FA,
             WaitVisible (By_NAME, ''kmsiForm'') 10,
             WaitClickable (By_ID, ''acceptButton'') 10, Click (By_ID, ''acceptButton''),
             Sleep 5, PageSource])
   \<and> executeLogin
       (example_world\<lparr>appears := \<lambda>t el n. el \<noteq> (By_ID, ''displaySign'')
            \<and> el \<noteq> (By_ID, ''idSpan_SAOTCAS_DescSessionID'')
            \<and> el \<noteq> (By_ID, ''idTxtBx_SAOTCC_OTC''),
          source := \<lambda>t. ''Help us protect your account''\<rparr>)
       \<lparr>visible = True\<rparr> (example_account\<lparr>totp := None\<rparr>) [] =
     waitForDashboard
       (example_world\<lparr>appears := \<lambda>t el n. el \<noteq> (By_ID, ''displaySign'')
            \<and> el \<noteq> (By_ID, ''idSpan_SAOTCAS_DescSessionID'')
            \<and> el \<noteq> (By_ID, ''idTxtBx_SAOTCC_OTC''),
          source := \<lambda>t. ''Help us protect your account''\<rparr>)
       (example_trace @ [WaitVisible (By_ID, ''idSpan_SAOTCAS_DescSessionID'') 10,
             WaitVisible (By_ID, ''idTxtBx_SAOTCC_OTC'') 1, Enter PasswordNo2FA,
             WaitVisible (By_NAME, ''kmsiForm'') 10,
             WaitClickable (By_ID, ''acceptButton'') 10, Click (By_ID, ''acceptButton''),
             Sleep 5, PageSource,
             Print ''Account protection detected, handle prompts and press enter when on rewards page'',
             Input])"
proof -
  let ?acct = "example_account\<lparr>totp := None\<rparr>"
  let ?w = "example_world\<lparr>appears := \<lambda>t el n. el \<noteq> (By_ID, ''displaySign'')
            \<and> el \<noteq> (By_ID, ''idSpan_SAOTCAS_DescSessionID'')
            \<and> el \<noteq> (By_ID, ''idTxtBx_SAOTCC_OTC''),
          source := \<lambda>t. ''Help us protect your account''\<rparr>"
  let ?tr4 = "example_trace @ [WaitVisible (By_ID, ''idSpan_SAOTCAS_DescSessionID'') 10,
             WaitVisible (By_ID, ''idTxtBx_SAOTCC_OTC'') 1, Enter PasswordNo2FA]"
  let ?tr5 = "?tr4 @ [WaitVisible (By_NAME, ''kmsiForm'') 10,
             WaitClickable (By_ID, ''acceptButton'') 10, Click (By_ID, ''acceptButton'')]"
  have p: "password_submitted example_world ?acct [] = Some example_trace"
    by (rule example_password_submitted_any) (simp_all add: example_world_def)
  have m: "\<not> appears example_world (length example_trace) (By_ID, ''idSpan_SAOTCAS_DescSessionID'') 10
      \<and> appears example_world (length example_trace + 1) (By_ID, ''idTxtBx_SAOTCC_OTC'') 1
      \<and> totp ?acct = None"
    by (simp add: example_world_def)
  have s4: "signIn ?w args ?acct [] = (Inr (), ?tr4)" for args
    by (rule example_signIn_no2FA) (auto simp: example_world_def)
  have c5: "consent ?w ?tr4 = (Inr (), ?tr5)"
    by (rule consent_done) (simp_all add: example_world_def)
  have "\<exists>u v. ''Help us protect your account'' = u @ ''protect your account'' @ v"
    by (intro exI [where x = "''Help us ''"] exI [where x = "[]"]) simp
  then have r: "re_search ?w ''protect your account'' (source ?w (length ?tr5 + 1)) = Inr True"
    by (simp add: re_search_protect)
  note T = manual_intervention_requires_visible
  have 1: "executeLogin example_world \<lparr>visible = False\<rparr> ?acct [] =
     (Inl (AssertionError ''[LOGIN] 2FA detected, provide token in accounts.json or run in visible mode to handle login.''),
      example_trace @ [WaitVisible (By_ID, ''idSpan_SAOTCAS_DescSessionID'') 10,
             WaitVisible (By_ID, ''idTxtBx_SAOTCC_OTC'') 1, Enter PasswordManual2FA])"
    using T [where w = example_world and acct = ?acct and tr = "[]" and ?tr3.0 = example_trace
        and args = "\<lparr>visible = False\<rparr>", THEN conjunct1] p m
    by simp
  have 2: "signIn example_world \<lparr>visible = True\<rparr> ?acct [] =
     (Inr (),
      example_trace @ [WaitVisible (By_ID, ''idSpan_SAOTCAS_DescSessionID'') 10,
             WaitVisible (By_ID, ''idTxtBx_SAOTCC_OTC'') 1, Enter PasswordManual2FA,
             Print ''[LOGIN] 2FA detected, handle prompts and press enter when on keep me signed in page.'',
             Input])"
    using T [where w = example_world and acct = ?acct and tr = "[]" and ?tr3.0 = example_trace
        and args = "\<lparr>visible = True\<rparr>", THEN conjunct2, THEN conjunct1] p m
    by simp
  have 3: "executeLogin ?w \<lparr>visible = False\<rparr> ?acct [] =
     (Inl (AssertionError ''Account protection detected, run in visible mode to handle login''),
      ?tr5 @ [Sleep 5, PageSource])"
    using T [where w = ?w and acct = ?acct and tr = "[]" and ?tr4.0 = ?tr4 and ?tr5.0 = ?tr5
        and args = "\<lparr>visible = False\<rparr>", THEN conjunct2, THEN conjunct2, THEN conjunct1]
      s4 c5 r
    by simp
  have 4: "executeLogin ?w \<lparr>visible = True\<rparr> ?acct [] =
     waitForDashboard ?w (?tr5 @ [Sleep 5, PageSource,
             Print ''Account protection detected, handle prompts and press enter when on rewards page'',
             Input])"
    using T [where w = ?w and acct = ?acct and tr = "[]" and ?tr4.0 = ?tr4 and ?tr5.0 = ?tr5
        and args = "\<lparr>visible = True\<rparr>", THEN conjunct2, THEN conjunct2, THEN conjunct2]
      s4 c5 r
    by simp
  from 1 2 3 4 show ?thesis by simp
qed













lemma getitem_trace: "snd (getitem j key tr) = tr"
  by (simp add: getitem_def raise_def ret_def split: json.splits option.splits)

lemma getBingInfo_trace:
  "snd (getBingInfo w tr) =
     tr @ [GetCookies, HttpGet ''https://www.bing.com/rewards/panelflyout/getuserinfo'']"
  by (simp add: getBingInfo_def and_then_def get_cookies_def session_get_def py_assert_def
        response_json_def raise_def ret_def getitem_trace
        split: http_outcome.splits option.splits prod.splits sum.splits)

lemma isLoggedIn_info_error:
  "getBingInfo w tr = (Inl e, tr1) \<Longrightarrow> isLoggedIn w tr = (Inl e, tr1)"
  by (simp add: isLoggedIn_def and_then_Inl)

lemma isLoggedIn_key_error:
  "getBingInfo w tr = (Inr info, tr1) \<Longrightarrow> getitem info ''isRewardsUser'' tr1 = (Inl e, tr1)
     \<Longrightarrow> isLoggedIn w tr = (Inl e, tr1)"
  by (simp add: isLoggedIn_def and_then_def)

lemma isLoggedIn_info_ok:
  "getBingInfo w tr = (Inr info, tr1) \<Longrightarrow> getitem info ''isRewardsUser'' tr1 = (Inr v, tr1)
     \<Longrightarrow> truthy v \<or> loads w (length tr1) ''https://rewards.bing.com/Signin/''
     \<Longrightarrow> isLoggedIn w tr =
       (if truthy v then (Inr True, tr1)
        else (Inr (appears w (length tr1 + 1) (By_CSS_SELECTOR, RewardsPortal) 10),
              tr1 @ [Get ''https://rewards.bing.com/Signin/'',
                     WaitVisible (By_CSS_SELECTOR, RewardsPortal) 10]))"
  by (auto simp: isLoggedIn_def and_then_def ret_def webdriver_get_def
        suppress_timeout_def waitUntilVisible_def)

lemma isLoggedIn_page_timeout:
  "getBingInfo w tr = (Inr info, tr1) \<Longrightarrow> getitem info ''isRewardsUser'' tr1 = (Inr v, tr1)
     \<Longrightarrow> \<not> truthy v \<Longrightarrow> \<not> loads w (length tr1) ''https://rewards.bing.com/Signin/''
     \<Longrightarrow> isLoggedIn w tr =
       (Inl (TimeoutException []), tr1 @ [Get ''https://rewards.bing.com/Signin/''])"
  by (simp add: isLoggedIn_def and_then_def webdriver_get_def)

text \<open>
  Claim C7, as amended. Whenever the account-info request delivers a user-info object
  with an \<^verbatim>\<open>isRewardsUser\<close> entry, and that entry is truthy or the sign-in page loads,
  \<^verbatim>\<open>isLoggedIn\<close> returns a boolean for every outcome of the wait on the sign-in page: true at
  once when the entry is truthy, otherwise true when the wait finds the portal marker and
  false when it times out. An exception of the account-info request (no response, a
  status other than 200, a body that is not JSON, a missing key) is not caught:
  \<^verbatim>\<open>isLoggedIn\<close> raises it.
\<close>

theorem isLoggedIn_boolean_after_info:
  "(getBingInfo w tr = (Inr info, tr1) \<and> getitem info ''isRewardsUser'' tr1 = (Inr v, tr1)
      \<and> (truthy v \<or> loads w (length tr1) ''https://rewards.bing.com/Signin/'')
    \<longrightarrow> isLoggedIn w tr =
         (if truthy v then (Inr True, tr1)
          else (Inr (appears w (length tr1 + 1) (By_CSS_SELECTOR, RewardsPortal) 10),
                tr1 @ [Get ''https://rewards.bing.com/Signin/'',
                       WaitVisible (By_CSS_SELECTOR, RewardsPortal) 10])))
   \<and> (getBingInfo w tr = (Inl e, tr1) \<longrightarrow> isLoggedIn w tr = (Inl e, tr1))
   \<and> (getBingInfo w tr = (Inr info, tr1) \<and> getitem info ''isRewardsUser'' tr1 = (Inl e, tr1)
    \<longrightarrow> isLoggedIn w tr = (Inl e, tr1))"
  by (intro conjI impI)
     (auto simp: isLoggedIn_info_error isLoggedIn_key_error
        isLoggedIn_info_ok [of w tr info tr1 v])

lemma isLoggedIn_events:
  "\<exists>rest. snd (isLoggedIn w tr) = tr @ rest
     \<and> set rest \<subseteq> {GetCookies, HttpGet ''https://www.bing.com/rewards/panelflyout/getuserinfo'',
                    Get ''https://rewards.bing.com/Signin/'',
                    WaitVisible (By_CSS_SELECTOR, RewardsPortal) 10}"
proof -
  let ?tr1 = "tr @ [GetCookies, HttpGet ''https://www.bing.com/rewards/panelflyout/getuserinfo'']"
  obtain r where g: "getBingInfo w tr = (r, ?tr1)"
    using getBingInfo_trace [of w tr] by (cases "getBingInfo w tr") simp
  show ?thesis
  proof (cases r)
    case (Inl e)
    with g show ?thesis by (simp add: isLoggedIn_info_error)
  next
    case (Inr info)
    obtain r' where k: "getitem info ''isRewardsUser'' ?tr1 = (r', ?tr1)"
      using getitem_trace [of info "''isRewardsUser''" ?tr1]
      by (cases "getitem info ''isRewardsUser'' ?tr1") simp
    show ?thesis
    proof (cases r')
      case (Inl e)
      with g Inr k show ?thesis by (simp add: isLoggedIn_key_error [of w tr info ?tr1 e])
    next
      case v: (Inr v)
      show ?thesis
      proof (cases "truthy v \<or> loads w (length ?tr1) ''https://rewards.bing.com/Signin/''")
        case True
        with g Inr k v show ?thesis
          by (simp add: isLoggedIn_info_ok [of w tr info ?tr1 v])
      next
        case False
        with g Inr k v show ?thesis
          by (simp add: isLoggedIn_page_timeout [of w tr info ?tr1 v])
      qed
    qed
  qed
qed

lemma login_skips_executeLogin:
  assumes "fst (isLoggedIn w tr) = Inr True"
  shows "login w args acct tr =
     and_then (isLoggedIn w) (\<lambda>loggedIn. py_assert loggedIn []) (snd (isLoggedIn w tr))"
  using assms by (cases "isLoggedIn w tr") (simp add: login_def and_then_def ret_def)

lemma answers_rewards_user_isLoggedIn:
  assumes "answers_rewards_user w tr"
  shows "isLoggedIn w tr =
     (Inr True, tr @ [GetCookies, HttpGet ''https://www.bing.com/rewards/panelflyout/getuserinfo''])"
proof -
  let ?tr1 = "tr @ [GetCookies, HttpGet ''https://www.bing.com/rewards/panelflyout/getuserinfo'']"
  obtain r where g: "getBingInfo w tr = (r, ?tr1)"
    using getBingInfo_trace [of w tr] by (cases "getBingInfo w tr") simp
  with assms obtain info where i: "r = Inr info"
    by (cases r) (simp_all add: answers_rewards_user_def)
  obtain r' where k: "getitem info ''isRewardsUser'' ?tr1 = (r', ?tr1)"
    using getitem_trace [of info "''isRewardsUser''" ?tr1]
    by (cases "getitem info ''isRewardsUser'' ?tr1") simp
  with assms g i obtain v where v: "r' = Inr v" "truthy v"
    by (cases r') (simp_all add: answers_rewards_user_def)
  from g i k v show ?thesis
    by (simp add: isLoggedIn_info_ok [of w tr info ?tr1 v])
qed

text \<open>
  Claim C2, as amended. When the first \<^verbatim>\<open>isLoggedIn\<close> of \<^verbatim>\<open>login\<close> returns true, the
  sign-in flow is not executed: \<^verbatim>\<open>login\<close> only repeats \<^verbatim>\<open>isLoggedIn\<close> for its closing
  \<^verbatim>\<open>assert\<close>, and the only events of the whole call are those of \<^verbatim>\<open>isLoggedIn\<close>: reading
  the cookies, the account-info request, loading the sign-in page and waiting for the
  portal marker; nothing is clicked or typed. When both checks are answered by the
  account-info request, \<^verbatim>\<open>login\<close> returns having only read the cookies and sent the request
  twice: no page is loaded.
\<close>

theorem login_when_authenticated:
  "(fst (isLoggedIn w tr) = Inr True
    \<longrightarrow> login w args acct tr =
          and_then (isLoggedIn w) (\<lambda>loggedIn. py_assert loggedIn []) (snd (isLoggedIn w tr))
        \<and> (\<exists>rest. snd (login w args acct tr) = tr @ rest
              \<and> set rest \<subseteq> {GetCookies,
                    HttpGet ''https://www.bing.com/rewards/panelflyout/getuserinfo'',
                    Get ''https://rewards.bing.com/Signin/'',
                    WaitVisible (By_CSS_SELECTOR, RewardsPortal) 10}))
   \<and> (answers_rewards_user w tr
      \<and> answers_rewards_user w
          (tr @ [GetCookies, HttpGet ''https://www.bing.com/rewards/panelflyout/getuserinfo''])
    \<longrightarrow> login w args acct tr =
         (Inr (),
          tr @ [GetCookies, HttpGet ''https://www.bing.com/rewards/panelflyout/getuserinfo'',
                GetCookies, HttpGet ''https://www.bing.com/rewards/panelflyout/getuserinfo'']))"
proof (intro conjI impI)
  assume a: "fst (isLoggedIn w tr) = Inr True"
  then show "login w args acct tr =
      and_then (isLoggedIn w) (\<lambda>loggedIn. py_assert loggedIn []) (snd (isLoggedIn w tr))"
    by (rule login_skips_executeLogin)
next
  assume a: "fst (isLoggedIn w tr) = Inr True"
  let ?E = "{GetCookies, HttpGet ''https://www.bing.com/rewards/panelflyout/getuserinfo'',
             Get ''https://rewards.bing.com/Signin/'',
             WaitVisible (By_CSS_SELECTOR, RewardsPortal) 10}"
  obtain r1 where r1: "snd (isLoggedIn w tr) = tr @ r1" "set r1 \<subseteq> ?E"
    using isLoggedIn_events [of w tr] by blast
  obtain r2 where r2: "snd (isLoggedIn w (tr @ r1)) = (tr @ r1) @ r2" "set r2 \<subseteq> ?E"
    using isLoggedIn_events [of w "tr @ r1"] by blast
  have "snd (login w args acct tr) = snd (isLoggedIn w (tr @ r1))"
    unfolding login_skips_executeLogin [OF a] r1(1)
    by (cases "isLoggedIn w (tr @ r1)"; cases "fst (isLoggedIn w (tr @ r1))")
       (simp_all add: and_then_def py_assert_def)
  with r2 have "snd (login w args acct tr) = tr @ (r1 @ r2)" by simp
  moreover have "set (r1 @ r2) \<subseteq> ?E" using r1(2) r2(2) by simp
  ultimately show "\<exists>rest. snd (login w args acct tr) = tr @ rest \<and> set rest \<subseteq> ?E"
    by blast
next
  assume a: "answers_rewards_user w tr
      \<and> answers_rewards_user w
          (tr @ [GetCookies, HttpGet ''https://www.bing.com/rewards/panelflyout/getuserinfo''])"
  then show "login w args acct tr =
         (Inr (),
          tr @ [GetCookies, HttpGet ''https://www.bing.com/rewards/panelflyout/getuserinfo'',
                GetCookies, HttpGet ''https://www.bing.com/rewards/panelflyout/getuserinfo''])"
    by (simp add: login_def and_then_def ret_def py_assert_def answers_rewards_user_isLoggedIn)
qed

lemmas info_defs = getBingInfo_def get_cookies_def session_get_def response_json_def
  getitem_def codes_ok_def

lemma example_getBingInfo:
  "getBingInfo (example_world\<lparr>appears := f\<rparr>) tr =
     (Inr (JObj [(''isRewardsUser'', JBool False)]),
      tr @ [GetCookies, HttpGet ''https://www.bing.com/rewards/panelflyout/getuserinfo''])"
  by (simp add: info_defs prim_defs example_world_def)

lemma rewards_user_world_answers: "answers_rewards_user rewards_user_world tr"
  by (simp add: answers_rewards_user_def rewards_user_world_def info_defs prim_defs
        example_world_def)

text \<open>
  With the portal marker found and not found, with a request that fails, and with a
  user-info object that lacks the entry.
\<close>

theorem isLoggedIn_boolean_after_info_witness:
  "isLoggedIn (example_world\<lparr>appears := \<lambda>t el n. True\<rparr>) [] =
     (Inr True,
      [GetCookies, HttpGet ''https://www.bing.com/rewards/panelflyout/getuserinfo'',
       Get ''https://rewards.bing.com/Signin/'',
       WaitVisible (By_CSS_SELECTOR, RewardsPortal) 10])
   \<and> isLoggedIn (example_world\<lparr>appears := \<lambda>t el n. False\<rparr>) [] =
     (Inr False,
      [GetCookies, HttpGet ''https://www.bing.com/rewards/panelflyout/getuserinfo'',
       Get ''https://rewards.bing.com/Signin/'',
       WaitVisible (By_CSS_SELECTOR, RewardsPortal) 10])
   \<and> isLoggedIn (example_world\<lparr>http_response := \<lambda>t url cs. RequestFailed\<rparr>) [] =
     (Inl RequestException,
      [GetCookies, HttpGet ''https://www.bing.com/rewards/panelflyout/getuserinfo''])
   \<and> isLoggedIn (example_world\<lparr>http_response := \<lambda>t url cs.
         Response 200 (Some (JObj [(''userInfo'', JObj [])]))\<rparr>) [] =
     (Inl (KeyError ''isRewardsUser''),
      [GetCookies, HttpGet ''https://www.bing.com/rewards/panelflyout/getuserinfo''])"
proof (intro conjI)
  let ?tr1 = "[GetCookies, HttpGet ''https://www.bing.com/rewards/panelflyout/getuserinfo'']"
  have k: "getitem (JObj [(''isRewardsUser'', JBool False)]) ''isRewardsUser'' ?tr1
      = (Inr (JBool False), ?tr1)"
    by (simp add: getitem_def ret_def)
  show "isLoggedIn (example_world\<lparr>appears := \<lambda>t el n. True\<rparr>) [] =
     (Inr True, [GetCookies, HttpGet ''https://www.bing.com/rewards/panelflyout/getuserinfo'',
       Get ''https://rewards.bing.com/Signin/'',
       WaitVisible (By_CSS_SELECTOR, RewardsPortal) 10])"
    using isLoggedIn_boolean_after_info [where w = "example_world\<lparr>appears := \<lambda>t el n. True\<rparr>"
        and tr = "[]" and ?tr1.0 = ?tr1 and info = "JObj [(''isRewardsUser'', JBool False)]"
        and v = "JBool False", THEN conjunct1]
      example_getBingInfo [of "\<lambda>t el n. True" "[]"] k
    by (simp add: example_world_def)
  show "isLoggedIn (example_world\<lparr>appears := \<lambda>t el n. False\<rparr>) [] =
     (Inr False, [GetCookies, HttpGet ''https://www.bing.com/rewards/panelflyout/getuserinfo'',
       Get ''https://rewards.bing.com/Signin/'',
       WaitVisible (By_CSS_SELECTOR, RewardsPortal) 10])"
    using isLoggedIn_boolean_after_info [where w = "example_world\<lparr>appears := \<lambda>t el n. False\<rparr>"
        and tr = "[]" and ?tr1.0 = ?tr1 and info = "JObj [(''isRewardsUser'', JBool False)]"
        and v = "JBool False", THEN conjunct1]
      example_getBingInfo [of "\<lambda>t el n. False" "[]"] k
    by (simp add: example_world_def)
  have f: "getBingInfo (example_world\<lparr>http_response := \<lambda>t url cs. RequestFailed\<rparr>) [] =
      (Inl RequestException, ?tr1)"
    by (simp add: info_defs prim_defs)
  show "isLoggedIn (example_world\<lparr>http_response := \<lambda>t url cs. RequestFailed\<rparr>) [] =
     (Inl RequestException, ?tr1)"
    using isLoggedIn_boolean_after_info [where
        w = "example_world\<lparr>http_response := \<lambda>t url cs. RequestFailed\<rparr>"
        and tr = "[]" and ?tr1.0 = ?tr1 and e = RequestException,
        THEN conjunct2, THEN conjunct1] f
    by simp
  let ?w = "example_world\<lparr>http_response := \<lambda>t url cs.
         Response 200 (Some (JObj [(''userInfo'', JObj [])]))\<rparr>"
  have g: "getBingInfo ?w [] = (Inr (JObj []), ?tr1)"
    by (simp add: info_defs prim_defs)
  have m: "getitem (JObj []) ''isRewardsUser'' ?tr1 = (Inl (KeyError ''isRewardsUser''), ?tr1)"
    by (simp add: getitem_def raise_def)
  show "isLoggedIn ?w [] = (Inl (KeyError ''isRewardsUser''), ?tr1)"
    using isLoggedIn_boolean_after_info [where w = ?w
        and tr = "[]" and ?tr1.0 = ?tr1 and e = "KeyError ''isRewardsUser''"
        and info = "JObj []", THEN conjunct2, THEN conjunct2] g m
    by simp
qed

text \<open>
  Claim C7 as stated fails: when the account-info request is answered with status 404,
  the \<^verbatim>\<open>assert\<close> in \<^verbatim>\<open>getBingInfo\<close> fails and the \<^verbatim>\<open>AssertionError\<close> leaves
  \<^verbatim>\<open>isLoggedIn\<close>.
\<close>

theorem isLoggedIn_boolean_after_info_counterexample:
  "isLoggedIn (example_world\<lparr>http_response := \<lambda>t url cs. Response 404 None\<rparr>) [] =
     (Inl (AssertionError []),
      [GetCookies, HttpGet ''https://www.bing.com/rewards/panelflyout/getuserinfo''])"
  by (simp add: isLoggedIn_def info_defs prim_defs)

lemma example_isLoggedIn:
  "isLoggedIn example_world tr =
     (Inr True,
      tr @ [GetCookies, HttpGet ''https://www.bing.com/rewards/panelflyout/getuserinfo'',
            Get ''https://rewards.bing.com/Signin/'',
            WaitVisible (By_CSS_SELECTOR, RewardsPortal) 10])"
  by (simp add: isLoggedIn_def info_defs prim_defs example_world_def RewardsPortal_def)

text \<open>
  On the example page, where the check is answered by the portal marker, and for a
  session that the account-info request reports as a rewards user.
\<close>

theorem login_when_authenticated_witness:
  "login example_world \<lparr>visible = False\<rparr> example_account [] =
       and_then (isLoggedIn example_world) (\<lambda>loggedIn. py_assert loggedIn [])
         (snd (isLoggedIn example_world []))
   \<and> (\<exists>rest. snd (login example_world \<lparr>visible = False\<rparr> example_account []) = [] @ rest
         \<and> set rest \<subseteq> {GetCookies,
               HttpGet ''https://www.bing.com/rewards/panelflyout/getuserinfo'',
               Get ''https://rewards.bing.com/Signin/'',
               WaitVisible (By_CSS_SELECTOR, RewardsPortal) 10})
   \<and> login rewards_user_world \<lparr>visible = False\<rparr> example_account [] =
       (Inr (),
        [GetCookies, HttpGet ''https://www.bing.com/rewards/panelflyout/getuserinfo'',
         GetCookies, HttpGet ''https://www.bing.com/rewards/panelflyout/getuserinfo''])"
proof -
  have t: "fst (isLoggedIn example_world []) = Inr True"
    by (simp add: example_isLoggedIn)
  note T = login_when_authenticated
  from T [where w = example_world and tr = "[]" and args = "\<lparr>visible = False\<rparr>"
      and acct = example_account, THEN conjunct1, rule_format, OF t]
  have 1: "login example_world \<lparr>visible = False\<rparr> example_account [] =
       and_then (isLoggedIn example_world) (\<lambda>loggedIn. py_assert loggedIn [])
         (snd (isLoggedIn example_world []))
   \<and> (\<exists>rest. snd (login example_world \<lparr>visible = False\<rparr> example_account []) = [] @ rest
         \<and> set rest \<subseteq> {GetCookies,
               HttpGet ''https://www.bing.com/rewards/panelflyout/getuserinfo'',
               Get ''https://rewards.bing.com/Signin/'',
               WaitVisible (By_CSS_SELECTOR, RewardsPortal) 10})" .
  from T [where w = rewards_user_world and tr = "[]" and args = "\<lparr>visible = False\<rparr>"
      and acct = example_account, THEN conjunct2, rule_format, OF conjI,
      OF rewards_user_world_answers rewards_user_world_answers]
  have 2: "login rewards_user_world \<lparr>visible = False\<rparr> example_account [] =
       (Inr (),
        [GetCookies, HttpGet ''https://www.bing.com/rewards/panelflyout/getuserinfo'',
         GetCookies, HttpGet ''https://www.bing.com/rewards/panelflyout/getuserinfo''])"
    by simp
  from 1 2 show ?thesis by blast
qed

text \<open>
  Claim C2 as stated fails: on the example page \<^verbatim>\<open>isLoggedIn\<close> returns true through the
  wait on the sign-in page, and \<^verbatim>\<open>login\<close> loads that page twice, once for each check.
\<close>

theorem login_when_authenticated_counterexample:
  "fst (isLoggedIn example_world []) = Inr True
   \<and> login example_world \<lparr>visible = False\<rparr> example_account [] =
       (Inr (),
        [GetCookies, HttpGet ''https://www.bing.com/rewards/panelflyout/getuserinfo'',
         Get ''https://rewards.bing.com/Signin/'',
         WaitVisible (By_CSS_SELECTOR, RewardsPortal) 10,
         GetCookies, HttpGet ''https://www.bing.com/rewards/panelflyout/getuserinfo'',
         Get ''https://rewards.bing.com/Signin/'',
         WaitVisible (By_CSS_SELECTOR, RewardsPortal) 10])"
  by (simp add: login_def and_then_def ret_def py_assert_def example_isLoggedIn)

end
